theory Spec2Isabelle
  imports Complex_Main "HOL-Library.Word"
begin

section \<open>Values shared by the node's components\<close>

text \<open>
  A Python \<^verbatim>\<open>bytes\<close> value is a list of octets. A hash attribute holds either
  \<^verbatim>\<open>None\<close> or such a value, so hashes are \<open>bytes option\<close> wherever the source
  reads \<^verbatim>\<open>tx.hash\<close>. Every exception the modelled code can raise is a value of
  \<open>error\<close>.
\<close>

type_synonym bytes = "8 word list"

datatype error =
    AssertionError
  | IndexError
  | ValueError
  | TypeError
  | ZeroDivisionError
  | AttributeError
  | TransactionDoesNotExist

text \<open>
  Python floats. A float that the node computes itself from its settings and from integer
  timestamps (\<^verbatim>\<open>block_weight\<close>) is idealised as a real: rounding is not modelled. A
  float that reaches the node from outside (the weight of a vertex, the weights kept in
  the metadata) is a \<open>pyfloat\<close>: a number, an infinity or NaN. \<open>float_lt\<close>,
  \<open>float_ge\<close> and \<open>float_ne\<close> are Python's \<^verbatim>\<open><\<close>, \<^verbatim>\<open>>=\<close> and \<^verbatim>\<open>!=\<close>: every ordering
  test with NaN is false, and NaN differs from every float, itself included.
\<close>

datatype pyfloat = Finite real | PosInf | NegInf | NaN

fun float_lt :: "pyfloat \<Rightarrow> pyfloat \<Rightarrow> bool" where
  "float_lt (Finite a) (Finite b) = (a < b)"
| "float_lt NaN _ = False"
| "float_lt _ NaN = False"
| "float_lt PosInf _ = False"
| "float_lt _ PosInf = True"
| "float_lt _ NegInf = False"
| "float_lt NegInf _ = True"


definition float_ne :: "pyfloat \<Rightarrow> pyfloat \<Rightarrow> bool" where
  "float_ne a b = (a = NaN \<or> b = NaN \<or> a \<noteq> b)"

text \<open>
  \<^verbatim>\<open>random.choice(seq)\<close>: the random draw is the explicit argument \<open>rnd\<close>; an empty
  sequence raises \<^verbatim>\<open>IndexError\<close>.
\<close>

definition random_choice :: "nat \<Rightarrow> 'a list \<Rightarrow> error + 'a" where
  "random_choice rnd xs =
     (if xs = [] then Inl IndexError else Inr (xs ! (rnd mod length xs)))"

section \<open>Vertices (hathor.transaction)\<close>

text \<open>
  Modelled from the spec: the classes \<^verbatim>\<open>Block\<close>, \<^verbatim>\<open>Transaction\<close> and \<^verbatim>\<open>TxOutput\<close> of
  \<^verbatim>\<open>hathor.transaction\<close> are not among the sources. The record has the fields that
  \<^verbatim>\<open>genesis.py\<close> and \<^verbatim>\<open>manager.py\<close> pass to the constructors or read back
  (spec section 3, Vertex). \<open>is_block\<close> tells a \<^verbatim>\<open>Block\<close> from a \<^verbatim>\<open>Transaction\<close>;
  \<open>storage\<close> is the identity of the storage object the vertex is bound to, if any.
\<close>

record TxOutput =
  out_value :: int
  out_script :: bytes

record BaseTransaction =
  is_block :: bool
  hash :: "bytes option"
  nonce :: int
  timestamp :: int
  weight :: pyfloat
  height :: int
  outputs :: "TxOutput list"
  parents :: "bytes option list"
  storage :: "nat option"

text \<open>Modelled from the spec: \<^verbatim>\<open>tx.sum_outputs\<close>, the total value of the outputs.\<close>

definition sum_outputs :: "BaseTransaction \<Rightarrow> int" where
  "sum_outputs tx = sum_list (map out_value (outputs tx))"

subsection \<open>Genesis (hathor/transaction/genesis.py)\<close>

definition BLOCK_GENESIS_HASH :: bytes where
  "BLOCK_GENESIS_HASH =
     [0x00, 0x02, 0xED, 0x24, 0x60, 0xBC, 0xDC, 0xD8, 0x04, 0xB2, 0xFE, 0x04, 0xEC, 0x92, 0xE5, 0x34,
      0x47, 0xEF, 0xE3, 0x93, 0xB1, 0x14, 0x32, 0xD4, 0xD1, 0xCF, 0x68, 0xBC, 0x05, 0x60, 0x6B, 0x67]"

definition TX_GENESIS1_HASH :: bytes where
  "TX_GENESIS1_HASH =
     [0x00, 0x01, 0x2A, 0x1D, 0xF4, 0x1A, 0xAF, 0x1D, 0xDA, 0x05, 0x94, 0x2C, 0x52, 0x2F, 0xF4, 0xF5,
      0x6F, 0xDC, 0xA5, 0x16, 0x01, 0x93, 0xE0, 0x11, 0x1E, 0xF8, 0x4E, 0x47, 0x4D, 0x29, 0x46, 0x03]"

definition TX_GENESIS2_HASH :: bytes where
  "TX_GENESIS2_HASH =
     [0x00, 0x00, 0x2D, 0xD4, 0xF8, 0x67, 0xBF, 0xB1, 0xCB, 0xA7, 0x5C, 0x60, 0x73, 0x46, 0x9B, 0xF7,
      0x6F, 0xAA, 0x3A, 0xFF, 0x24, 0xCF, 0x80, 0xFB, 0x00, 0x6E, 0xD8, 0x48, 0xEC, 0x77, 0x13, 0x73]"

definition GENESIS_OUTPUT_SCRIPT :: bytes where
  "GENESIS_OUTPUT_SCRIPT =
     [0x76, 0xA9, 0x14, 0xFD, 0x05, 0x05, 0x9B, 0x60, 0x06, 0x24, 0x95, 0x43, 0xB8, 0x2F, 0x36, 0x87,
      0x6A, 0x17, 0xC7, 0x3F, 0xD2, 0x26, 0x7B, 0x88, 0xAC]"

text \<open>
  The constants \<^verbatim>\<open>GENESIS_TOKENS\<close>, \<^verbatim>\<open>MIN_BLOCK_WEIGHT\<close> and \<^verbatim>\<open>MIN_TX_WEIGHT\<close> of
  \<^verbatim>\<open>hathor.constants\<close> are not among the sources; they are arguments. A constructor
  argument that \<^verbatim>\<open>genesis.py\<close> leaves out takes the empty default (no parents, no
  outputs).
\<close>

record constants =
  GENESIS_TOKENS :: int
  MIN_BLOCK_WEIGHT :: real
  MIN_TX_WEIGHT :: real

definition TX_GENESIS1 :: "constants \<Rightarrow> nat option \<Rightarrow> BaseTransaction" where
  "TX_GENESIS1 c tx_storage_ref =
     \<lparr>is_block = False, hash = Some TX_GENESIS1_HASH, nonce = 3325, timestamp = 1539271482,
      weight = Finite (MIN_TX_WEIGHT c), height = 1, outputs = [], parents = [],
      storage = tx_storage_ref\<rparr>"

definition TX_GENESIS2 :: "constants \<Rightarrow> nat option \<Rightarrow> BaseTransaction" where
  "TX_GENESIS2 c tx_storage_ref =
     \<lparr>is_block = False, hash = Some TX_GENESIS2_HASH, nonce = 30489, timestamp = 1539271483,
      weight = Finite (MIN_TX_WEIGHT c), height = 1, outputs = [], parents = [],
      storage = tx_storage_ref\<rparr>"

definition GENESIS_OUTPUTS :: "constants \<Rightarrow> TxOutput list" where
  "GENESIS_OUTPUTS c = [\<lparr>out_value = GENESIS_TOKENS c, out_script = GENESIS_OUTPUT_SCRIPT\<rparr>]"

definition BLOCK_GENESIS :: "constants \<Rightarrow> nat option \<Rightarrow> BaseTransaction" where
  "BLOCK_GENESIS c tx_storage_ref =
     \<lparr>is_block = True, hash = Some BLOCK_GENESIS_HASH, nonce = 4854, timestamp = 1539271481,
      weight = Finite (MIN_BLOCK_WEIGHT c), height = 1, outputs = GENESIS_OUTPUTS c, parents = [],
      storage = tx_storage_ref\<rparr>"

definition genesis_transactions :: "constants \<Rightarrow> nat option \<Rightarrow> BaseTransaction list" where
  "genesis_transactions c tx_storage_ref =
     [BLOCK_GENESIS c tx_storage_ref, TX_GENESIS1 c tx_storage_ref, TX_GENESIS2 c tx_storage_ref]"

text \<open>
  Modelled from the spec: the property \<^verbatim>\<open>tx.is_genesis\<close> is not among the sources. Spec
  sections 4.3 (6) and 6: the genesis vertices are the three with the hard-coded hashes.
\<close>

definition is_genesis :: "BaseTransaction \<Rightarrow> bool" where
  "is_genesis tx =
     (hash tx \<in> set [Some BLOCK_GENESIS_HASH, Some TX_GENESIS1_HASH, Some TX_GENESIS2_HASH])"

section \<open>Transaction storage (spec section 4.2)\<close>

text \<open>
  Modelled from the spec: \<^verbatim>\<open>TransactionMemoryStorage\<close> is not among the sources. Spec
  section 4.2: a content-addressed store of vertices with \<open>exists\<close>, \<open>get\<close>, \<open>put\<close>,
  \<open>block_count\<close>, \<open>tip_blocks\<close> (blocks with no block children) and
  \<open>tip_transactions k\<close> (up to \<open>k\<close> transactions with no children). The store is the
  list of its vertices in insertion order; \<open>sid\<close> is the identity of the storage object.
  Void marking belongs to the consensus code, which is not among the sources either: no
  vertex of the model is void.
\<close>

record TransactionStorage =
  sid :: nat
  transactions :: "BaseTransaction list"

definition transaction_exists_by_hash_bytes :: "TransactionStorage \<Rightarrow> bytes option \<Rightarrow> bool" where
  "transaction_exists_by_hash_bytes st h = (h \<in> set (map hash (transactions st)))"

definition get_transaction_by_hash_bytes ::
    "TransactionStorage \<Rightarrow> bytes option \<Rightarrow> error + BaseTransaction" where
  "get_transaction_by_hash_bytes st h =
     (case find (\<lambda>v. hash v = h) (transactions st) of
        None \<Rightarrow> Inl TransactionDoesNotExist
      | Some v \<Rightarrow> Inr v)"

definition save_transaction :: "TransactionStorage \<Rightarrow> BaseTransaction \<Rightarrow> TransactionStorage" where
  "save_transaction st tx =
     st\<lparr>transactions :=
          (if transaction_exists_by_hash_bytes st (hash tx)
           then map (\<lambda>v. if hash v = hash tx then tx else v) (transactions st)
           else transactions st @ [tx])\<rparr>"

definition get_block_count :: "TransactionStorage \<Rightarrow> int" where
  "get_block_count st = int (length (filter is_block (transactions st)))"

definition has_block_child :: "TransactionStorage \<Rightarrow> BaseTransaction \<Rightarrow> bool" where
  "has_block_child st v = list_ex (\<lambda>c. is_block c \<and> hash v \<in> set (parents c)) (transactions st)"

definition has_child :: "TransactionStorage \<Rightarrow> BaseTransaction \<Rightarrow> bool" where
  "has_child st v = list_ex (\<lambda>c. hash v \<in> set (parents c)) (transactions st)"

definition get_tip_blocks_hashes :: "TransactionStorage \<Rightarrow> bytes option list" where
  "get_tip_blocks_hashes st =
     map hash (filter (\<lambda>v. is_block v \<and> \<not> has_block_child st v) (transactions st))"

definition all_tip_transactions :: "TransactionStorage \<Rightarrow> BaseTransaction list" where
  "all_tip_transactions st =
     filter (\<lambda>v. \<not> is_block v \<and> \<not> has_child st v) (transactions st)"

definition get_tip_transactions :: "TransactionStorage \<Rightarrow> nat \<Rightarrow> BaseTransaction list" where
  "get_tip_transactions st count = take count (all_tip_transactions st)"

section \<open>The manager (hathor/p2p/manager.py)\<close>

datatype NodeState = INITIALIZING | WAITING_FOR_PEERS | SYNCING | SYNCED

text \<open>
  Modelled from the spec: \<^verbatim>\<open>PeerId\<close> and \<^verbatim>\<open>PeerStorage\<close> are not among the sources. A
  peer record carries its id and its entrypoints (spec section 3); the peer storage maps
  an id to its record, and \<open>add_or_merge\<close> adds an unknown peer and merges the
  entrypoints of a known one (spec section 4.6, PEER-ID).
\<close>

record PeerId =
  id_p :: string
  entrypoints :: "string list"

type_synonym PeerStorage = "string \<rightharpoonup> PeerId"

definition merge :: "PeerId \<Rightarrow> PeerId \<Rightarrow> PeerId" where
  "merge cur other = cur\<lparr>entrypoints := remdups (entrypoints cur @ entrypoints other)\<rparr>"

definition add_or_merge :: "PeerStorage \<Rightarrow> PeerId \<Rightarrow> PeerStorage" where
  "add_or_merge ps peer =
     (case ps (id_p peer) of
        None \<Rightarrow> ps(id_p peer \<mapsto> peer)
      | Some cur \<Rightarrow> ps(id_p peer \<mapsto> merge cur peer))"

text \<open>
  The fields of \<^verbatim>\<open>HathorManager\<close> that the modelled methods read or write.
  \<open>state = None\<close> is the value \<^verbatim>\<open>__init__\<close> leaves before \<^verbatim>\<open>doStart\<close>.
  \<open>connected_peers\<close> maps a peer id to a connection handle; \<open>connecting_peers\<close> lists
  the descriptions of the dials under way. Both attributes are created by \<^verbatim>\<open>doStart\<close>,
  not by \<^verbatim>\<open>__init__\<close>: they are \<open>None\<close> while the attribute does not exist, and reading
  one then raises \<^verbatim>\<open>AttributeError\<close>.
\<close>

record HathorManager =
  state :: "NodeState option"
  my_peer :: PeerId
  peer_storage :: PeerStorage
  tx_storage :: TransactionStorage
  connected_peers :: "(string \<times> nat) list option"
  connecting_peers :: "string list option"
  blocks_per_difficulty :: int
  latest_blocks :: "BaseTransaction list"
  avg_time_between_blocks :: int
  min_block_weight :: real
  block_weight :: real
  max_allowed_block_weight_change :: real
  tokens_issued_per_block :: int

text \<open>
  Code the manager calls that is neither among the sources nor described by the spec is
  an argument: \<open>verify st tx\<close> tells whether \<^verbatim>\<open>tx.verify()\<close> returns without raising a
  \<^verbatim>\<open>HathorError\<close>; \<open>node_sync_on_new_tx\<close> is the sync manager's hook, which holds a
  reference to the manager; \<open>add_to_cache\<close> is the storage's \<^verbatim>\<open>_add_to_cache\<close>. The
  wallet's hook acts on the wallet only and is left out.
\<close>

record collaborators =
  verify :: "TransactionStorage \<Rightarrow> BaseTransaction \<Rightarrow> bool"
  node_sync_on_new_tx :: "HathorManager \<Rightarrow> BaseTransaction \<Rightarrow> HathorManager"
  add_to_cache :: "TransactionStorage \<Rightarrow> BaseTransaction \<Rightarrow> TransactionStorage"

subsection \<open>validate_new_tx\<close>

text \<open>
  The function returns a boolean; what it prints is not modelled. The last test of the
  block branch only prints a message and falls through to \<^verbatim>\<open>return True\<close>.
\<close>

definition validate_new_tx :: "collaborators \<Rightarrow> HathorManager \<Rightarrow> BaseTransaction \<Rightarrow> bool" where
  "validate_new_tx env m tx =
     (if state m \<noteq> Some INITIALIZING \<and> is_genesis tx then False
      else if state m \<noteq> Some INITIALIZING
              \<and> transaction_exists_by_hash_bytes (tx_storage m) (hash tx) then False
      else if \<not> list_all (transaction_exists_by_hash_bytes (tx_storage m)) (parents tx) then False
      else if \<not> verify env (tx_storage m) tx then False
      else if is_block tx then
        (if float_lt (weight tx) (Finite (block_weight m)) then False
         else if sum_outputs tx \<noteq> tokens_issued_per_block m then True
         else True)
      else True)"

subsection \<open>calculate_block_difficulty\<close>

text \<open>\<^verbatim>\<open>math.log(x, 2)\<close> on an integer: a \<^verbatim>\<open>ValueError\<close> unless \<open>x\<close> is positive.\<close>

definition py_log2 :: "int \<Rightarrow> error + real" where
  "py_log2 x = (if x \<le> 0 then Inl ValueError else Inr (log 2 (real_of_int x)))"

definition calculate_block_difficulty :: "HathorManager \<Rightarrow> error + (real \<times> real)" where
  "calculate_block_difficulty m =
     (let blocks = latest_blocks m in
      if int (length blocks) \<noteq> blocks_per_difficulty m then Inl AssertionError
      else if blocks = [] then Inl IndexError
      else
        let dt0 = timestamp (last blocks) - timestamp (hd blocks);
            dt = (if dt0 \<le> 0 then 1 else dt0)
        in case py_log2 (avg_time_between_blocks m) of Inl e \<Rightarrow> Inl e | Inr la \<Rightarrow>
           (case py_log2 (blocks_per_difficulty m) of Inl e \<Rightarrow> Inl e | Inr lb \<Rightarrow>
           (case py_log2 dt of Inl e \<Rightarrow> Inl e | Inr ld \<Rightarrow>
              let delta0 = la + lb - ld;
                  delta = (if delta0 > max_allowed_block_weight_change m
                             then max_allowed_block_weight_change m
                           else if delta0 < - max_allowed_block_weight_change m
                             then - max_allowed_block_weight_change m
                           else delta0);
                  new_weight0 = block_weight m + delta;
                  new_weight = (if new_weight0 < min_block_weight m
                                  then min_block_weight m else new_weight0)
              in if blocks_per_difficulty m = 0 then Inl ZeroDivisionError
                 else Inr (real_of_int dt / real_of_int (blocks_per_difficulty m), new_weight))))"

text \<open>The clamp of the spec's retarget formula (spec section 4.5).\<close>

definition clamp :: "real \<Rightarrow> real \<Rightarrow> real \<Rightarrow> real" where
  "clamp x lo hi = max lo (min hi x)"

subsection \<open>on_new_tx\<close>

text \<open>
  The loop \<^verbatim>\<open>while len(latest_blocks) > blocks_per_difficulty: latest_blocks.popleft()\<close>;
  \<^verbatim>\<open>popleft\<close> on an empty deque raises \<^verbatim>\<open>IndexError\<close>.
\<close>

fun popleft_while :: "int \<Rightarrow> 'a list \<Rightarrow> error + 'a list" where
  "popleft_while n [] = (if 0 > n then Inl IndexError else Inr [])"
| "popleft_while n (x # xs) =
     (if int (length (x # xs)) > n then popleft_while n xs else Inr (x # xs))"

definition on_new_tx ::
    "collaborators \<Rightarrow> HathorManager \<Rightarrow> BaseTransaction \<Rightarrow> error + HathorManager" where
  "on_new_tx env m tx =
     (if \<not> validate_new_tx env m tx then Inr m
      else
        let m1 = (if state m = Some INITIALIZING
                  then m\<lparr>tx_storage := add_to_cache env (tx_storage m) tx\<rparr>
                  else node_sync_on_new_tx env
                         (m\<lparr>tx_storage := save_transaction (tx_storage m) tx\<rparr>) tx)
        in if is_block tx then
             (case popleft_while (blocks_per_difficulty m1) (latest_blocks m1 @ [tx]) of
                Inl e \<Rightarrow> Inl e
              | Inr blocks \<Rightarrow>
                  let m2 = m1\<lparr>latest_blocks := blocks\<rparr>;
                      count_blocks = get_block_count (tx_storage m2)
                  in if blocks_per_difficulty m2 = 0 then Inl ZeroDivisionError
                     else if count_blocks mod blocks_per_difficulty m2 = 0 then
                       (case calculate_block_difficulty m2 of
                          Inl e \<Rightarrow> Inl e
                        | Inr (avg_dt, new_weight) \<Rightarrow> Inr (m2\<lparr>block_weight := new_weight\<rparr>))
                     else Inr m2)
           else Inr m1)"

subsection \<open>propagate_tx\<close>

text \<open>
  The result is the manager after the call together with the data sent, one pair of
  connection handle and vertex for each \<^verbatim>\<open>conn.state.send_data(tx)\<close>, in the order of
  \<^verbatim>\<open>connected_peers.values()\<close>. An exception leaves before anything is sent.
\<close>

definition propagate_tx ::
    "collaborators \<Rightarrow> HathorManager \<Rightarrow> BaseTransaction
     \<Rightarrow> error + (HathorManager \<times> (nat \<times> BaseTransaction) list)" where
  "propagate_tx env m tx =
     (if storage tx \<noteq> None \<and> storage tx \<noteq> Some (sid (tx_storage m)) then Inl AssertionError
      else
        let tx1 = (if storage tx \<noteq> None then tx else tx\<lparr>storage := Some (sid (tx_storage m))\<rparr>)
        in case on_new_tx env m tx1 of
             Inl e \<Rightarrow> Inl e
           | Inr m1 \<Rightarrow>
               if state m1 = Some SYNCED
               then (case connected_peers m1 of
                       None \<Rightarrow> Inl AttributeError
                     | Some peers \<Rightarrow> Inr (m1, map (\<lambda>conn. (conn, tx1)) (map snd peers)))
               else Inr (m1, []))"

subsection \<open>get_new_tx_parents and generate_mining_block\<close>

definition get_new_tx_parents :: "nat \<Rightarrow> HathorManager \<Rightarrow> error + bytes option list" where
  "get_new_tx_parents rnd m =
     (let tips = get_tip_transactions (tx_storage m) 2;
          ret = map hash tips
      in if length tips = 1
         then (case random_choice rnd (parents (hd tips)) of
                 Inl e \<Rightarrow> Inl e
               | Inr p \<Rightarrow> Inr (ret @ [p]))
         else Inr ret)"

text \<open>The list comprehension over \<^verbatim>\<open>get_transaction_by_hash_bytes\<close>.\<close>

fun get_transactions ::
    "TransactionStorage \<Rightarrow> bytes option list \<Rightarrow> error + BaseTransaction list" where
  "get_transactions st [] = Inr []"
| "get_transactions st (h # hs) =
     (case get_transaction_by_hash_bytes st h of
        Inl e \<Rightarrow> Inl e
      | Inr v \<Rightarrow> (case get_transactions st hs of Inl e \<Rightarrow> Inl e | Inr vs \<Rightarrow> Inr (v # vs)))"

text \<open>\<^verbatim>\<open>max\<close> of a sequence: a \<^verbatim>\<open>ValueError\<close> when it is empty.\<close>

definition py_max :: "int list \<Rightarrow> error + int" where
  "py_max xs = (case xs of [] \<Rightarrow> Inl ValueError | x # ys \<Rightarrow> Inr (fold max ys x))"

text \<open>
  \<open>address\<close> is what \<^verbatim>\<open>wallet.get_unused_address_bytes\<close> returns and \<open>now\<close> the
  timestamp the \<^verbatim>\<open>Block\<close> constructor gives a block created without one; the new block
  has no hash yet.
\<close>

definition generate_mining_block ::
    "bytes \<Rightarrow> int \<Rightarrow> nat \<Rightarrow> HathorManager \<Rightarrow> error + BaseTransaction" where
  "generate_mining_block address now rnd m =
     (let amount = tokens_issued_per_block m;
          tx_outputs = [\<lparr>out_value = amount, out_script = address\<rparr>];
          tip_blocks = get_tip_blocks_hashes (tx_storage m)
      in case get_new_tx_parents rnd m of
           Inl e \<Rightarrow> Inl e
         | Inr tip_txs \<Rightarrow>
            (let new_parents = tip_blocks @ tip_txs
             in (case get_transactions (tx_storage m) new_parents of
                   Inl e \<Rightarrow> Inl e
                 | Inr parents_tx \<Rightarrow>
                    (case py_max (map height parents_tx) of
                       Inl e \<Rightarrow> Inl e
                     | Inr h \<Rightarrow>
                         Inr \<lparr>is_block = True, hash = None, nonce = 0, timestamp = now,
                              weight = Finite (block_weight m), height = h + 1,
                              outputs = tx_outputs,
                              parents = new_parents,
                              storage = Some (sid (tx_storage m))\<rparr>))))"

subsection \<open>update_peer and connect_to_if_not_connected\<close>

text \<open>
  These methods change the manager in place and may raise afterwards, so the result is
  the manager as the call leaves it together with the exception raised, if any.
  \<^verbatim>\<open>clientFromString\<close> belongs to Twisted, which is not among the sources: the argument
  \<open>parses\<close> tells whether it returns an endpoint for a description or raises
  \<^verbatim>\<open>ValueError\<close>. What is kept of a dial is its description, recorded in
  \<open>connecting_peers\<close>.
\<close>

definition connect_to ::
    "(string \<Rightarrow> bool) \<Rightarrow> HathorManager \<Rightarrow> string \<Rightarrow> HathorManager \<times> error option" where
  "connect_to parses m description =
     (if \<not> parses description then (m, Some ValueError)
      else (case connecting_peers m of
              None \<Rightarrow> (m, Some AttributeError)
            | Some dials \<Rightarrow> (m\<lparr>connecting_peers := Some (dials @ [description])\<rparr>, None)))"

definition connect_to_if_not_connected ::
    "(string \<Rightarrow> bool) \<Rightarrow> nat \<Rightarrow> HathorManager \<Rightarrow> PeerId \<Rightarrow> HathorManager \<times> error option" where
  "connect_to_if_not_connected parses rnd m peer =
     (if entrypoints peer = [] then (m, None)
      else (case connected_peers m of
              None \<Rightarrow> (m, Some AttributeError)
            | Some peers \<Rightarrow>
                if id_p peer \<notin> set (map fst peers)
                then (case random_choice rnd (entrypoints peer) of
                        Inl e \<Rightarrow> (m, Some e)
                      | Inr description \<Rightarrow> connect_to parses m description)
                else (m, None)))"

definition update_peer ::
    "(string \<Rightarrow> bool) \<Rightarrow> nat \<Rightarrow> HathorManager \<Rightarrow> PeerId \<Rightarrow> HathorManager \<times> error option" where
  "update_peer parses rnd m peer =
     (if id_p peer = id_p (my_peer m) then (m, None)
      else connect_to_if_not_connected parses rnd
             (m\<lparr>peer_storage := add_or_merge (peer_storage m) peer\<rparr>) peer)"

subsection \<open>The constructor\<close>

text \<open>
  \<^verbatim>\<open>__init__\<close> with its defaults, for a given peer id and storage. \<open>started\<close> is what
  \<^verbatim>\<open>doStart\<close> does after the replay of the stored vertices: it creates the two peer
  dictionaries, empty.
\<close>

definition HathorManager_init :: "PeerId \<Rightarrow> TransactionStorage \<Rightarrow> HathorManager" where
  "HathorManager_init peer st =
     \<lparr>state = None, my_peer = peer, peer_storage = Map.empty, tx_storage = st,
      connected_peers = None, connecting_peers = None,
      blocks_per_difficulty = 5, latest_blocks = [], avg_time_between_blocks = 64,
      min_block_weight = 10, block_weight = 10, max_allowed_block_weight_change = 2,
      tokens_issued_per_block = 10000\<rparr>"

definition started :: "HathorManager \<Rightarrow> HathorManager" where
  "started m = m\<lparr>connecting_peers := Some [], connected_peers := Some []\<rparr>"

section \<open>Transaction metadata (hathor/transaction/transaction_metadata.py)\<close>

subsection \<open>Hexadecimal strings\<close>

text \<open>
  \<^verbatim>\<open>bytes.hex()\<close> writes two lower-case digits for each octet. \<^verbatim>\<open>bytes.fromhex(s)\<close>
  skips ASCII whitespace between octets, reads the digits of an octet in either case, and
  raises \<^verbatim>\<open>ValueError\<close> on anything else.
\<close>

definition hex_digit :: "nat \<Rightarrow> char" where
  "hex_digit n = ''0123456789abcdef'' ! n"

definition hex :: "bytes \<Rightarrow> string" where
  "hex bs = concat (map (\<lambda>b. [hex_digit (unat b div 16), hex_digit (unat b mod 16)]) bs)"

definition is_space :: "char \<Rightarrow> bool" where
  "is_space c = (c \<in> set [CHR '' '', CHR 0x09, CHR 0x0A, CHR 0x0B, CHR 0x0C, CHR 0x0D])"

definition hex_value :: "char \<Rightarrow> nat option" where
  "hex_value c =
     (let n = (of_char c :: nat) in
      if 48 \<le> n \<and> n \<le> 57 then Some (n - 48)
      else if 97 \<le> n \<and> n \<le> 102 then Some (n - 87)
      else if 65 \<le> n \<and> n \<le> 70 then Some (n - 55)
      else None)"

fun fromhex :: "string \<Rightarrow> error + bytes" where
  "fromhex [] = Inr []"
| "fromhex [c] = (if is_space c then Inr [] else Inl ValueError)"
| "fromhex (c # d # cs) =
     (if is_space c then fromhex (d # cs)
      else (case (hex_value c, hex_value d) of
              (Some x, Some y) \<Rightarrow>
                (case fromhex cs of
                   Inl e \<Rightarrow> Inl e
                 | Inr bs \<Rightarrow> Inr (word_of_nat (16 * x + y) # bs))
            | _ \<Rightarrow> Inl ValueError))"

subsection \<open>Sets and dictionaries\<close>

text \<open>
  A Python set is the list of its elements in iteration order, and two sets are equal
  when they have the same elements. A dictionary is the list of its items in insertion
  order, each key once; two dictionaries are equal when they have the same keys and equal
  values. \<open>defaultdict_add idx x d\<close> is \<^verbatim>\<open>d[idx].add(x)\<close> on a \<^verbatim>\<open>defaultdict(set)\<close>.
  \<open>spenders\<close> reads a dictionary of sets as a function from keys to sets.
\<close>

definition set_add :: "'a \<Rightarrow> 'a list \<Rightarrow> 'a list" where
  "set_add x s = (if x \<in> set s then s else s @ [x])"

definition py_set :: "'a list \<Rightarrow> 'a list" where
  "py_set xs = fold set_add xs []"

definition set_eq :: "'a list \<Rightarrow> 'a list \<Rightarrow> bool" where
  "set_eq a b = (set a = set b)"

definition dict_eq :: "('k \<times> 'a list) list \<Rightarrow> ('k \<times> 'a list) list \<Rightarrow> bool" where
  "dict_eq d1 d2 =
     (set (map fst d1) = set (map fst d2)
      \<and> list_all (\<lambda>k. map_option set (map_of d1 k) = map_option set (map_of d2 k)) (map fst d1))"

definition defaultdict_add :: "'k \<Rightarrow> 'a \<Rightarrow> ('k \<times> 'a list) list \<Rightarrow> ('k \<times> 'a list) list" where
  "defaultdict_add idx x d =
     (case map_of d idx of
        None \<Rightarrow> d @ [(idx, [x])]
      | Some s \<Rightarrow> map (\<lambda>(k, v). if k = idx then (k, set_add x v) else (k, v)) d)"

definition spenders :: "('k \<times> 'a list) list \<Rightarrow> 'k \<Rightarrow> 'a set option" where
  "spenders d k = map_option set (map_of d k)"

subsection \<open>Objects\<close>

text \<open>
  An instance of the class, its sets and its dictionary are mutable objects, and the claim
  about \<open>clone\<close> is about which of them two instances share. They live in a heap: a
  list of objects, an object's address being its position; creating an object appends
  it. An attribute that holds a set or the dictionary holds its address; the dictionary
  \<open>spent_outputs\<close> maps an index to the address of a set. Hashes, numbers and strings
  are immutable and are held as values. The field \<^verbatim>\<open>hash\<close> of the class is \<open>hash_md\<close>
  here.
\<close>

record TransactionMetadata =
  hash_md :: "bytes option"
  spent_outputs :: nat
  conflict_with :: nat
  voided_by :: nat
  received_by :: nat
  children :: nat
  twins :: nat
  accumulated_weight :: pyfloat
  score :: pyfloat
  first_block :: "bytes option"

datatype py_object =
    Bytes_set "bytes list"
  | Int_set "int list"
  | Dict "(int \<times> nat) list"
  | Metadata TransactionMetadata

type_synonym heap = "py_object list"

definition alloc :: "heap \<Rightarrow> py_object \<Rightarrow> heap \<times> nat" where
  "alloc h obj = (h @ [obj], length h)"

text \<open>
  Reading an object through an address. An address that holds an object of another kind,
  or none, is an ill-formed heap; the read fails with \<^verbatim>\<open>TypeError\<close>.
\<close>

definition bytes_set_at :: "heap \<Rightarrow> nat \<Rightarrow> error + bytes list" where
  "bytes_set_at h a =
     (if a < length h then (case h ! a of Bytes_set xs \<Rightarrow> Inr xs | _ \<Rightarrow> Inl TypeError)
      else Inl TypeError)"

definition int_set_at :: "heap \<Rightarrow> nat \<Rightarrow> error + int list" where
  "int_set_at h a =
     (if a < length h then (case h ! a of Int_set xs \<Rightarrow> Inr xs | _ \<Rightarrow> Inl TypeError)
      else Inl TypeError)"

definition dict_at :: "heap \<Rightarrow> nat \<Rightarrow> error + (int \<times> nat) list" where
  "dict_at h a =
     (if a < length h then (case h ! a of Dict items \<Rightarrow> Inr items | _ \<Rightarrow> Inl TypeError)
      else Inl TypeError)"

definition metadata_at :: "heap \<Rightarrow> nat \<Rightarrow> error + TransactionMetadata" where
  "metadata_at h a =
     (if a < length h then (case h ! a of Metadata f \<Rightarrow> Inr f | _ \<Rightarrow> Inl TypeError)
      else Inl TypeError)"

text \<open>The items of a dictionary of sets, each set read through its address.\<close>

fun dict_items :: "heap \<Rightarrow> (int \<times> nat) list \<Rightarrow> error + (int \<times> bytes list) list" where
  "dict_items h [] = Inr []"
| "dict_items h ((idx, s) # rest) =
     (case bytes_set_at h s of
        Inl e \<Rightarrow> Inl e
      | Inr xs \<Rightarrow> (case dict_items h rest of Inl e \<Rightarrow> Inl e | Inr ys \<Rightarrow> Inr ((idx, xs) # ys)))"

text \<open>Running one step after another, an exception ending the run.\<close>

definition then_do :: "error + 'a \<Rightarrow> ('a \<Rightarrow> error + 'b) \<Rightarrow> error + 'b" where
  "then_do r f = (case r of Inl e \<Rightarrow> Inl e | Inr x \<Rightarrow> f x)"

text \<open>
  The attributes of an instance with every set and the dictionary read out: what
  \<open>to_json\<close> and \<^verbatim>\<open>__eq__\<close> look at.
\<close>

record metadata_view =
  v_hash :: "bytes option"
  v_spent_outputs :: "(int \<times> bytes list) list"
  v_conflict_with :: "bytes list"
  v_voided_by :: "bytes list"
  v_received_by :: "int list"
  v_children :: "bytes list"
  v_twins :: "bytes list"
  v_accumulated_weight :: pyfloat
  v_score :: pyfloat
  v_first_block :: "bytes option"

definition view :: "heap \<Rightarrow> nat \<Rightarrow> error + metadata_view" where
  "view h self =
     then_do (metadata_at h self) (\<lambda>f.
     then_do (dict_at h (spent_outputs f)) (\<lambda>items.
     then_do (dict_items h items) (\<lambda>spent.
     then_do (bytes_set_at h (conflict_with f)) (\<lambda>cw.
     then_do (bytes_set_at h (voided_by f)) (\<lambda>vb.
     then_do (int_set_at h (received_by f)) (\<lambda>rb.
     then_do (bytes_set_at h (children f)) (\<lambda>ch.
     then_do (bytes_set_at h (twins f)) (\<lambda>tw.
       Inr \<lparr>v_hash = hash_md f, v_spent_outputs = spent, v_conflict_with = cw,
            v_voided_by = vb, v_received_by = rb, v_children = ch, v_twins = tw,
            v_accumulated_weight = accumulated_weight f, v_score = score f,
            v_first_block = first_block f\<rparr>))))))))"

text \<open>
  The mutable objects an instance reaches: itself, its dictionary, the sets in the
  dictionary and its five sets.
\<close>

definition reachable :: "heap \<Rightarrow> nat \<Rightarrow> nat set" where
  "reachable h self =
     (case metadata_at h self of
        Inl e \<Rightarrow> {self}
      | Inr f \<Rightarrow>
          {self, spent_outputs f, conflict_with f, voided_by f, received_by f, children f,
           twins f}
          \<union> (case dict_at h (spent_outputs f) of Inl e \<Rightarrow> {} | Inr items \<Rightarrow> set (map snd items)))"

subsection \<open>TransactionMetadata\<close>

text \<open>
  \<open>TransactionMetadata_init\<close> is the constructor called without arguments: it creates
  the dictionary and the five sets. The instance under construction is held as a record
  and becomes an object of the heap when \<open>create_from_json\<close> returns it; until then
  only the local variable \<^verbatim>\<open>meta\<close> refers to it. \<open>TransactionMetadata_eq\<close> is \<^verbatim>\<open>__eq__\<close>:
  the fields in the order of the source, the result being that no pair differs.
\<close>

definition TransactionMetadata_init :: "heap \<Rightarrow> heap \<times> TransactionMetadata" where
  "TransactionMetadata_init h =
     (let (h1, spent) = alloc h (Dict []);
          (h2, cw) = alloc h1 (Bytes_set []);
          (h3, vb) = alloc h2 (Bytes_set []);
          (h4, rb) = alloc h3 (Int_set []);
          (h5, ch) = alloc h4 (Bytes_set []);
          (h6, tw) = alloc h5 (Bytes_set [])
      in (h6, \<lparr>hash_md = None, spent_outputs = spent, conflict_with = cw, voided_by = vb,
                received_by = rb, children = ch, twins = tw, accumulated_weight = Finite 0,
                score = Finite 0, first_block = None\<rparr>))"

definition TransactionMetadata_eq :: "heap \<Rightarrow> nat \<Rightarrow> nat \<Rightarrow> error + bool" where
  "TransactionMetadata_eq h self other =
     then_do (view h self) (\<lambda>a.
     then_do (view h other) (\<lambda>b.
       Inr (v_hash a = v_hash b
            \<and> dict_eq (v_spent_outputs a) (v_spent_outputs b)
            \<and> set_eq (v_conflict_with a) (v_conflict_with b)
            \<and> set_eq (v_voided_by a) (v_voided_by b)
            \<and> set_eq (v_received_by a) (v_received_by b)
            \<and> set_eq (v_children a) (v_children b)
            \<and> \<not> float_ne (v_accumulated_weight a) (v_accumulated_weight b)
            \<and> set_eq (v_twins a) (v_twins b)
            \<and> \<not> float_ne (v_score a) (v_score b)
            \<and> v_first_block a = v_first_block b)))"

text \<open>
  The dictionary that \<open>to_json\<close> returns is a record of values: \<open>to_json\<close> builds every
  list in it anew (\<^verbatim>\<open>list(...)\<close>, list comprehensions) and its strings, numbers and
  \<^verbatim>\<open>None\<close> are immutable, so nothing in it refers to an object of the instance.
  \<open>j_hash\<close> holds what \<^verbatim>\<open>self.hash and self.hash.hex()\<close> evaluates to (\<^verbatim>\<open>None\<close>, the empty
  \<^verbatim>\<open>bytes\<close> or a string); a key that \<open>create_from_json\<close> looks up with \<^verbatim>\<open>in\<close> or
  \<^verbatim>\<open>get\<close> is optional.
\<close>

datatype json_hash = JNone | JBytes bytes | JStr string

record metadata_json =
  j_hash :: json_hash
  j_spent_outputs :: "(int \<times> string list) list"
  j_received_by :: "int list"
  j_children :: "string list"
  j_conflict_with :: "string list option"
  j_voided_by :: "string list option"
  j_twins :: "string list option"
  j_accumulated_weight :: pyfloat
  j_score :: "pyfloat option"
  j_first_block :: "string option"

definition to_json :: "heap \<Rightarrow> nat \<Rightarrow> error + metadata_json" where
  "to_json h self =
     then_do (view h self) (\<lambda>v.
       Inr \<lparr>j_hash = (case v_hash v of
                        None \<Rightarrow> JNone
                      | Some x \<Rightarrow> if x = [] then JBytes x else JStr (hex x)),
            j_spent_outputs = map (\<lambda>(idx, hashes). (idx, map hex hashes)) (v_spent_outputs v),
            j_received_by = v_received_by v,
            j_children = map hex (v_children v),
            j_conflict_with = Some (map hex (v_conflict_with v)),
            j_voided_by = Some (map hex (v_voided_by v)),
            j_twins = Some (map hex (v_twins v)),
            j_accumulated_weight = v_accumulated_weight v,
            j_score = Some (v_score v),
            j_first_block = map_option hex (v_first_block v)\<rparr>)"

fun fromhex_all :: "string list \<Rightarrow> error + bytes list" where
  "fromhex_all [] = Inr []"
| "fromhex_all (x # xs) =
     (case fromhex x of
        Inl e \<Rightarrow> Inl e
      | Inr b \<Rightarrow> (case fromhex_all xs of Inl e \<Rightarrow> Inl e | Inr bs \<Rightarrow> Inr (b # bs)))"

text \<open>The elements of \<^verbatim>\<open>set(bytes.fromhex(h) for h in ...)\<close>.\<close>

definition fromhex_set :: "string list \<Rightarrow> error + bytes list" where
  "fromhex_set xs = (case fromhex_all xs of Inl e \<Rightarrow> Inl e | Inr bs \<Rightarrow> Inr (py_set bs))"

definition fromhex_set_opt :: "string list option \<Rightarrow> error + bytes list" where
  "fromhex_set_opt v = (case v of None \<Rightarrow> Inr [] | Some xs \<Rightarrow> fromhex_set xs)"

text \<open>
  \<^verbatim>\<open>meta.spent_outputs[idx]\<close> on the \<^verbatim>\<open>defaultdict(set)\<close> at address \<open>d\<close>: the set stored under
  \<open>idx\<close>, a new empty set being created and stored first when the key is missing.
  \<open>set_add_at\<close> is \<^verbatim>\<open>add\<close> on the set at an address.
\<close>

definition spender_set :: "heap \<Rightarrow> nat \<Rightarrow> int \<Rightarrow> error + (heap \<times> nat)" where
  "spender_set h d idx =
     then_do (dict_at h d) (\<lambda>items.
       case map_of items idx of
         Some s \<Rightarrow> Inr (h, s)
       | None \<Rightarrow> (let (h1, s) = alloc h (Bytes_set [])
                  in Inr (h1[d := Dict (items @ [(idx, s)])], s)))"

definition set_add_at :: "heap \<Rightarrow> nat \<Rightarrow> bytes \<Rightarrow> error + heap" where
  "set_add_at h s x =
     then_do (bytes_set_at h s) (\<lambda>xs. Inr (h[s := Bytes_set (set_add x xs)]))"

fun add_spenders :: "heap \<Rightarrow> nat \<Rightarrow> int \<Rightarrow> string list \<Rightarrow> error + heap" where
  "add_spenders h d idx [] = Inr h"
| "add_spenders h d idx (h_hex # hashes) =
     then_do (spender_set h d idx) (\<lambda>(h1, s).
     then_do (fromhex h_hex) (\<lambda>b.
     then_do (set_add_at h1 s b) (\<lambda>h2.
       add_spenders h2 d idx hashes)))"

fun load_spent_outputs :: "heap \<Rightarrow> nat \<Rightarrow> (int \<times> string list) list \<Rightarrow> error + heap" where
  "load_spent_outputs h d [] = Inr h"
| "load_spent_outputs h d ((idx, hashes) # rest) =
     then_do (add_spenders h d idx hashes) (\<lambda>h1. load_spent_outputs h1 d rest)"

definition load_first_block :: "string option \<Rightarrow> error + bytes option" where
  "load_first_block first_block_raw =
     (case first_block_raw of
        None \<Rightarrow> Inr None
      | Some s \<Rightarrow> if s = [] then Inr None
                  else (case fromhex s of Inl e \<Rightarrow> Inl e | Inr b \<Rightarrow> Inr (Some b)))"

text \<open>
  \<open>create_from_json\<close> in the order of the source. Each assignment of a set creates the
  set (\<^verbatim>\<open>set(...)\<close>); the sets that the constructor created are left behind.
\<close>

definition create_from_json :: "heap \<Rightarrow> metadata_json \<Rightarrow> error + (heap \<times> nat)" where
  "create_from_json h data =
     (let (h0, meta) = TransactionMetadata_init h in
      then_do (case j_hash data of JStr s \<Rightarrow> fromhex s | _ \<Rightarrow> Inl TypeError) (\<lambda>hash_bytes.
      then_do (load_spent_outputs h0 (spent_outputs meta) (j_spent_outputs data)) (\<lambda>h1.
      let (h2, rb) = alloc h1 (Int_set (py_set (j_received_by data))) in
      then_do (fromhex_set (j_children data)) (\<lambda>ch_elems.
      let (h3, ch) = alloc h2 (Bytes_set ch_elems) in
      then_do (fromhex_set_opt (j_conflict_with data)) (\<lambda>cw_elems.
      let (h4, cw) = alloc h3 (Bytes_set cw_elems) in
      then_do (fromhex_set_opt (j_voided_by data)) (\<lambda>vb_elems.
      let (h5, vb) = alloc h4 (Bytes_set vb_elems) in
      then_do (fromhex_set_opt (j_twins data)) (\<lambda>tw_elems.
      let (h6, tw) = alloc h5 (Bytes_set tw_elems) in
      then_do (load_first_block (j_first_block data)) (\<lambda>fb.
        Inr (alloc h6
              (Metadata
                (meta\<lparr>hash_md := Some hash_bytes, received_by := rb, children := ch,
                      conflict_with := cw, voided_by := vb, twins := tw,
                      accumulated_weight := j_accumulated_weight data,
                      score := (case j_score data of None \<Rightarrow> Finite 0 | Some x \<Rightarrow> x),
                      first_block := fb\<rparr>)))))))))))"

definition clone :: "heap \<Rightarrow> nat \<Rightarrow> error + (heap \<times> nat)" where
  "clone h self = then_do (to_json h self) (create_from_json h)"

text \<open>\<^verbatim>\<open>m == m.clone()\<close>, evaluated in the heap that \<open>clone\<close> leaves.\<close>

definition equals_own_clone :: "heap \<Rightarrow> nat \<Rightarrow> error + bool" where
  "equals_own_clone h self =
     then_do (clone h self) (\<lambda>(h1, copy). TransactionMetadata_eq h1 self copy)"

subsection \<open>The dictionary under construction\<close>

text \<open>
  What holds of the dictionary at address \<open>d\<close> while \<open>create_from_json\<close> fills it, in a
  heap whose first \<open>n\<close> objects existed before the call: the dictionary and its sets
  are new objects, each key and each set occurs once. \<open>items_view\<close> reads the items.
\<close>

definition set_contents :: "heap \<Rightarrow> nat \<Rightarrow> bytes list" where
  "set_contents h s = (case h ! s of Bytes_set xs \<Rightarrow> xs | _ \<Rightarrow> [])"

definition items_view :: "heap \<Rightarrow> (int \<times> nat) list \<Rightarrow> (int \<times> bytes list) list" where
  "items_view h items = map (\<lambda>(k, s). (k, set_contents h s)) items"

definition dict_inv :: "nat \<Rightarrow> heap \<Rightarrow> nat \<Rightarrow> (int \<times> nat) list \<Rightarrow> bool" where
  "dict_inv n h d items =
     (n \<le> d \<and> d < length h \<and> h ! d = Dict items
      \<and> distinct (map fst items) \<and> distinct (map snd items)
      \<and> list_all (\<lambda>s. n \<le> s \<and> s < length h \<and> s \<noteq> d \<and> h ! s = Bytes_set (set_contents h s))
           (map snd items))"

text \<open>
  The objects that \<open>create_from_json\<close> creates after the dictionary is filled, for an
  instance read as \<open>v\<close>: the five sets and the instance, whose dictionary is at address
  \<open>d\<close>, in a heap that held \<open>n\<close> objects before them.
\<close>

definition copy_objects :: "nat \<Rightarrow> nat \<Rightarrow> metadata_view \<Rightarrow> py_object list" where
  "copy_objects d n v =
     [Int_set (py_set (v_received_by v)), Bytes_set (py_set (v_children v)),
      Bytes_set (py_set (v_conflict_with v)), Bytes_set (py_set (v_voided_by v)),
      Bytes_set (py_set (v_twins v)),
      Metadata \<lparr>hash_md = v_hash v, spent_outputs = d, conflict_with = n + 2,
                voided_by = n + 3, received_by = n, children = n + 1, twins = n + 4,
                accumulated_weight = v_accumulated_weight v, score = v_score v,
                first_block = v_first_block v\<rparr>]"

section \<open>Sample data\<close>

text \<open>
  A node over a storage that holds the three genesis vertices, collaborators that accept
  every vertex and do nothing else, and a few vertices, used where a statement is
  evaluated at a concrete input.
\<close>

definition sample_constants :: constants where
  "sample_constants = \<lparr>GENESIS_TOKENS = 200000000000, MIN_BLOCK_WEIGHT = 10, MIN_TX_WEIGHT = 10\<rparr>"

definition genesis_storage :: TransactionStorage where
  "genesis_storage = \<lparr>sid = 0, transactions = genesis_transactions sample_constants (Some 0)\<rparr>"

definition sample_peer :: PeerId where
  "sample_peer = \<lparr>id_p = ''node'', entrypoints = []\<rparr>"

definition fresh_node :: HathorManager where
  "fresh_node = HathorManager_init sample_peer genesis_storage"

definition synced_node :: HathorManager where
  "synced_node =
     (started fresh_node)\<lparr>state := Some SYNCED, connected_peers := Some [(''a'', 7), (''b'', 8)]\<rparr>"

definition accept_all :: collaborators where
  "accept_all = \<lparr>verify = (\<lambda>st tx. True), node_sync_on_new_tx = (\<lambda>m tx. m),
                 add_to_cache = (\<lambda>st tx. st)\<rparr>"

definition genesis_parents :: "bytes option list" where
  "genesis_parents = [Some BLOCK_GENESIS_HASH, Some TX_GENESIS1_HASH, Some TX_GENESIS2_HASH]"

definition sample_block :: "real \<Rightarrow> int \<Rightarrow> bytes option list \<Rightarrow> BaseTransaction" where
  "sample_block w v ps =
     \<lparr>is_block = True, hash = Some [0x01], nonce = 0, timestamp = 1539271500,
      weight = Finite w, height = 2, outputs = [\<lparr>out_value = v, out_script = []\<rparr>], parents = ps,
      storage = None\<rparr>"

definition after_sample_block :: HathorManager where
  "after_sample_block =
     synced_node\<lparr>tx_storage := save_transaction genesis_storage (sample_block 10 10000 genesis_parents),
                 latest_blocks := [sample_block 10 10000 genesis_parents]\<rparr>"

definition waiting_node :: HathorManager where
  "waiting_node = synced_node\<lparr>state := Some WAITING_FOR_PEERS\<rparr>"

definition window :: "BaseTransaction list" where
  "window = map (\<lambda>k. (sample_block 10 10000 genesis_parents)\<lparr>timestamp := 1539271500 + 32 * k\<rparr>)
              [0, 1, 2, 3, 4]"

definition mined_on_genesis :: BaseTransaction where
  "mined_on_genesis =
     \<lparr>is_block = True, hash = None, nonce = 0, timestamp = 1539271500, weight = Finite 10,
      height = 2, outputs = [\<lparr>out_value = 10000, out_script = GENESIS_OUTPUT_SCRIPT\<rparr>],
      parents = [Some BLOCK_GENESIS_HASH, Some TX_GENESIS1_HASH, Some TX_GENESIS2_HASH],
      storage = Some 0\<rparr>"



definition tx_on_block :: BaseTransaction where
  "tx_on_block =
     \<lparr>is_block = False, hash = Some [0x04], nonce = 0, timestamp = 1539271490,
      weight = Finite 10, height = 2, outputs = [],
      parents = [Some TX_GENESIS1_HASH, Some BLOCK_GENESIS_HASH], storage = Some 0\<rparr>"


definition node_after_tx :: HathorManager where
  "node_after_tx = synced_node\<lparr>tx_storage := save_transaction genesis_storage tx_on_block\<rparr>"


definition other_peer :: PeerId where
  "other_peer = \<lparr>id_p = ''peer1'', entrypoints = [''tcp:127.0.0.1:40403'']\<rparr>"

text \<open>
  A heap that holds one instance, at address 8, with its dictionary (address 0), the two
  spender sets (1 and 2) and its five sets (3 to 7).
\<close>

definition sample_fields :: TransactionMetadata where
  "sample_fields =
     \<lparr>hash_md = Some [0x01], spent_outputs = 0, conflict_with = 3, voided_by = 4,
      received_by = 5, children = 6, twins = 7, accumulated_weight = Finite 12,
      score = Finite 11, first_block = Some [0x05]\<rparr>"

definition sample_heap :: "TransactionMetadata \<Rightarrow> heap" where
  "sample_heap f =
     [Dict [(0, 1), (1, 2)], Bytes_set [[0x03], [0x04]], Bytes_set [[0x03]],
      Bytes_set [[0x04]], Bytes_set [], Int_set [7, 8], Bytes_set [[0x03], [0x04]],
      Bytes_set [], Metadata f]"

text \<open>The sample instance as \<open>view\<close> reads it.\<close>

definition sample_view :: metadata_view where
  "sample_view =
     \<lparr>v_hash = Some [0x01], v_spent_outputs = [(0, [[0x03], [0x04]]), (1, [[0x03]])],
      v_conflict_with = [[0x04]], v_voided_by = [], v_received_by = [7, 8],
      v_children = [[0x03], [0x04]], v_twins = [], v_accumulated_weight = Finite 12,
      v_score = Finite 11, v_first_block = Some [0x05]\<rparr>"

section \<open>Facts about the sample data\<close>

lemma genesis_hashes_distinct:
  "BLOCK_GENESIS_HASH \<noteq> TX_GENESIS1_HASH" "BLOCK_GENESIS_HASH \<noteq> TX_GENESIS2_HASH"
  "TX_GENESIS1_HASH \<noteq> TX_GENESIS2_HASH"
  by (simp_all add: BLOCK_GENESIS_HASH_def TX_GENESIS1_HASH_def TX_GENESIS2_HASH_def)

lemma genesis_hashes_long:
  "BLOCK_GENESIS_HASH \<noteq> [b]" "TX_GENESIS1_HASH \<noteq> [b]" "TX_GENESIS2_HASH \<noteq> [b]"
  by (simp_all add: BLOCK_GENESIS_HASH_def TX_GENESIS1_HASH_def TX_GENESIS2_HASH_def)

lemma genesis_storage_hashes:
  "map hash (transactions genesis_storage) =
     [Some BLOCK_GENESIS_HASH, Some TX_GENESIS1_HASH, Some TX_GENESIS2_HASH]"
  by (simp add: genesis_storage_def genesis_transactions_def BLOCK_GENESIS_def TX_GENESIS1_def
      TX_GENESIS2_def)

lemma genesis_exists:
  "transaction_exists_by_hash_bytes genesis_storage (Some BLOCK_GENESIS_HASH)"
  "transaction_exists_by_hash_bytes genesis_storage (Some TX_GENESIS1_HASH)"
  "transaction_exists_by_hash_bytes genesis_storage (Some TX_GENESIS2_HASH)"
  by (simp_all add: transaction_exists_by_hash_bytes_def genesis_storage_hashes)

lemma short_hash_unknown:
  "\<not> transaction_exists_by_hash_bytes genesis_storage (Some [b])"
  using genesis_hashes_long [of b]
  by (auto simp add: transaction_exists_by_hash_bytes_def genesis_storage_hashes
      simp del: set_map)

lemma sample_block_sel:
  "hash (sample_block w v ps) = Some [0x01]"
  "is_block (sample_block w v ps)"
  "weight (sample_block w v ps) = Finite w"
  "parents (sample_block w v ps) = ps"
  "storage (sample_block w v ps) = None"
  "sum_outputs (sample_block w v ps) = v"
  by (simp_all add: sample_block_def sum_outputs_def)

lemma short_hash_not_genesis: "hash tx = Some [b] \<Longrightarrow> \<not> is_genesis tx"
  using genesis_hashes_long [of b] by (auto simp: is_genesis_def)

lemma fresh_node_fields:
  "tx_storage fresh_node = genesis_storage"
  "state fresh_node = None"
  "block_weight fresh_node = 10"
  "tokens_issued_per_block fresh_node = 10000"
  "blocks_per_difficulty fresh_node = 5"
  "latest_blocks fresh_node = []"
  "my_peer fresh_node = sample_peer"
  by (simp_all add: fresh_node_def HathorManager_init_def)

lemma synced_node_fields:
  "tx_storage synced_node = genesis_storage"
  "state synced_node = Some SYNCED"
  "block_weight synced_node = 10"
  "tokens_issued_per_block synced_node = 10000"
  "blocks_per_difficulty synced_node = 5"
  "latest_blocks synced_node = []"
  "connected_peers synced_node = Some [(''a'', 7), (''b'', 8)]"
  by (simp_all add: synced_node_def started_def fresh_node_fields)

lemma waiting_node_fields:
  "tx_storage waiting_node = genesis_storage"
  "state waiting_node = Some WAITING_FOR_PEERS"
  "block_weight waiting_node = 10"
  "blocks_per_difficulty waiting_node = 5"
  "latest_blocks waiting_node = []"
  "connected_peers waiting_node = Some [(''a'', 7), (''b'', 8)]"
  by (simp_all add: waiting_node_def synced_node_fields)

lemma accept_all_sel:
  "verify accept_all st tx"
  "node_sync_on_new_tx accept_all m tx = m"
  "add_to_cache accept_all st tx = st"
  by (simp_all add: accept_all_def)

lemma save_new_on_genesis:
  "hash tx = Some [b] \<Longrightarrow>
   save_transaction genesis_storage tx =
     \<lparr>sid = 0, transactions = genesis_transactions sample_constants (Some 0) @ [tx]\<rparr>"
  by (simp add: save_transaction_def short_hash_unknown) (simp add: genesis_storage_def)

lemma block_count_on_genesis:
  "hash tx = Some [b] \<Longrightarrow> is_block tx \<Longrightarrow>
   get_block_count (save_transaction genesis_storage tx) = 2"
  by (simp add: save_new_on_genesis get_block_count_def genesis_transactions_def
      BLOCK_GENESIS_def TX_GENESIS1_def TX_GENESIS2_def)

section \<open>on_new_tx: discarded and accepted vertices\<close>

lemma on_new_tx_discard:
  "\<not> validate_new_tx env m tx \<Longrightarrow> on_new_tx env m tx = Inr m"
  by (simp add: on_new_tx_def)

lemma on_new_tx_state:
  assumes "on_new_tx env m tx = Inr m1"
    and "\<And>m0 v. state (node_sync_on_new_tx env m0 v) = state m0"
  shows "state m1 = state m"
  using assms
  by (auto simp: on_new_tx_def Let_def split: if_splits sum.splits prod.splits)

text \<open>
  A block with a fresh one-byte hash whose parents are the genesis vertices, arriving at
  a node that has left \<open>INITIALIZING\<close> and holds the genesis vertices only.
\<close>

lemma validate_block_on_genesis:
  assumes "tx_storage m = genesis_storage" and "state m \<noteq> Some INITIALIZING"
    and "hash tx = Some [b]" and "parents tx = genesis_parents"
    and "is_block tx" and "\<not> float_lt (weight tx) (Finite (block_weight m))"
  shows "validate_new_tx accept_all m tx"
  using assms
  by (simp add: validate_new_tx_def short_hash_not_genesis short_hash_unknown accept_all_sel
      genesis_parents_def genesis_exists)

lemma on_new_tx_block_on_genesis:
  assumes "tx_storage m = genesis_storage" and "state m \<noteq> Some INITIALIZING"
    and "hash tx = Some [b]" and "parents tx = genesis_parents"
    and "is_block tx" and "\<not> float_lt (weight tx) (Finite (block_weight m))"
    and "latest_blocks m = []" and "blocks_per_difficulty m = 5"
  shows "on_new_tx accept_all m tx =
     Inr (m\<lparr>tx_storage := save_transaction genesis_storage tx, latest_blocks := [tx]\<rparr>)"
proof -
  have v: "validate_new_tx accept_all m tx"
    using assms by (simp add: validate_block_on_genesis)
  have n: "get_block_count (save_transaction genesis_storage tx) = 2"
    using assms by (simp add: block_count_on_genesis)
  show ?thesis
    using assms(1,2,5,7,8)
    by (simp add: on_new_tx_def v Let_def accept_all_sel n)
qed

text \<open>A synced node on the genesis storage accepts and stores the sample transaction.\<close>

lemma on_new_tx_tx_on_block:
  "on_new_tx accept_all synced_node tx_on_block = Inr node_after_tx"
proof -
  have x: "hash tx_on_block = Some [0x04]" "\<not> is_block tx_on_block"
    "parents tx_on_block = [Some TX_GENESIS1_HASH, Some BLOCK_GENESIS_HASH]"
    by (simp_all add: tx_on_block_def)
  have v1: "validate_new_tx accept_all synced_node tx_on_block"
    using short_hash_not_genesis [OF x(1)] short_hash_unknown [of "0x04"]
    by (simp add: validate_new_tx_def synced_node_fields accept_all_sel genesis_exists x)
  show ?thesis
    by (simp add: on_new_tx_def v1 Let_def accept_all_sel synced_node_fields node_after_tx_def x)
qed

section \<open>Rejection of vertices by validate_new_tx\<close>

text \<open>
  C5. A vertex, block or transaction, with a parent hash that is not in the transaction
  storage is rejected in every node state: \<open>validate_new_tx\<close> returns \<open>False\<close>, and
  \<open>on_new_tx\<close> returns with the manager, its storage included, as it was.
\<close>

theorem missing_parent_rejected:
  assumes "p \<in> set (parents tx)"
    and "\<not> transaction_exists_by_hash_bytes (tx_storage m) p"
  shows "validate_new_tx env m tx = False \<and> on_new_tx env m tx = Inr m"
proof -
  from assms
  have "\<not> list_all (transaction_exists_by_hash_bytes (tx_storage m)) (parents tx)"
    by (auto simp: list_all_iff)
  then have "\<not> validate_new_tx env m tx"
    by (simp add: validate_new_tx_def)
  then show ?thesis
    by (simp add: on_new_tx_discard)
qed

theorem missing_parent_rejected_witness:
  "Some [0x02] \<in> set (parents (sample_block 10 10000 [Some BLOCK_GENESIS_HASH, Some [0x02]]))
   \<and> \<not> transaction_exists_by_hash_bytes (tx_storage fresh_node) (Some [0x02])
   \<and> validate_new_tx accept_all fresh_node
        (sample_block 10 10000 [Some BLOCK_GENESIS_HASH, Some [0x02]]) = False
   \<and> on_new_tx accept_all fresh_node
        (sample_block 10 10000 [Some BLOCK_GENESIS_HASH, Some [0x02]]) = Inr fresh_node"
proof -
  have in_parents:
    "Some [0x02] \<in> set (parents (sample_block 10 10000 [Some BLOCK_GENESIS_HASH, Some [0x02]]))"
    by (simp add: sample_block_sel)
  have unknown: "\<not> transaction_exists_by_hash_bytes (tx_storage fresh_node) (Some [0x02])"
    by (simp add: fresh_node_fields short_hash_unknown)
  from missing_parent_rejected [OF in_parents unknown, of accept_all] in_parents unknown
  show ?thesis by simp
qed




text \<open>
  C3. The test of the total output value in \<open>validate_new_tx\<close> has no effect on the
  result. At a synced node holding the genesis vertices, a block that issues 1 token
  where \<open>tokens_issued_per_block\<close> is 10000, and is otherwise in order, is accepted:
  \<open>validate_new_tx\<close> returns \<open>True\<close> and \<open>on_new_tx\<close> stores the block.
\<close>

theorem wrong_issue_block_accepted:
  "sum_outputs (sample_block 10 1 genesis_parents) \<noteq> tokens_issued_per_block synced_node
   \<and> validate_new_tx accept_all synced_node (sample_block 10 1 genesis_parents) = True
   \<and> on_new_tx accept_all synced_node (sample_block 10 1 genesis_parents) =
       Inr (synced_node
            \<lparr>tx_storage := save_transaction genesis_storage (sample_block 10 1 genesis_parents),
             latest_blocks := [sample_block 10 1 genesis_parents]\<rparr>)
   \<and> transaction_exists_by_hash_bytes
        (save_transaction genesis_storage (sample_block 10 1 genesis_parents))
        (hash (sample_block 10 1 genesis_parents))"
proof -
  have "validate_new_tx accept_all synced_node (sample_block 10 1 genesis_parents)"
    by (simp add: validate_block_on_genesis [where b = "0x01"] sample_block_sel
        synced_node_fields)
  moreover have "on_new_tx accept_all synced_node (sample_block 10 1 genesis_parents) =
       Inr (synced_node
            \<lparr>tx_storage := save_transaction genesis_storage (sample_block 10 1 genesis_parents),
             latest_blocks := [sample_block 10 1 genesis_parents]\<rparr>)"
    by (simp add: on_new_tx_block_on_genesis [where b = "0x01"] sample_block_sel
        synced_node_fields)
  moreover have "transaction_exists_by_hash_bytes
        (save_transaction genesis_storage (sample_block 10 1 genesis_parents))
        (hash (sample_block 10 1 genesis_parents))"
    by (simp add: save_new_on_genesis [where b = "0x01"] sample_block_sel
        transaction_exists_by_hash_bytes_def)
  ultimately show ?thesis
    by (simp add: sample_block_sel synced_node_fields)
qed

section \<open>Vertices that are already stored\<close>

text \<open>
  C4, as the code has it. Once the node has left \<open>INITIALIZING\<close>, \<open>on_new_tx\<close> on a
  vertex whose hash is in the transaction storage is discarded: \<open>validate_new_tx\<close>
  returns \<open>False\<close> and the manager, its storage included, stays as it was, so a second
  application changes nothing.
\<close>

theorem known_vertex_discarded:
  assumes "state m \<noteq> Some INITIALIZING"
    and "transaction_exists_by_hash_bytes (tx_storage m) (hash tx)"
  shows "validate_new_tx env m tx = False \<and> on_new_tx env m tx = Inr m"
proof -
  from assms have "\<not> validate_new_tx env m tx"
    by (simp add: validate_new_tx_def)
  then show ?thesis
    by (simp add: on_new_tx_discard)
qed

theorem known_vertex_discarded_witness:
  "on_new_tx accept_all synced_node (sample_block 10 10000 genesis_parents) = Inr after_sample_block
   \<and> state after_sample_block \<noteq> Some INITIALIZING
   \<and> transaction_exists_by_hash_bytes (tx_storage after_sample_block)
        (hash (sample_block 10 10000 genesis_parents))
   \<and> validate_new_tx accept_all after_sample_block (sample_block 10 10000 genesis_parents) = False
   \<and> on_new_tx accept_all after_sample_block (sample_block 10 10000 genesis_parents)
       = Inr after_sample_block"
proof -
  have first: "on_new_tx accept_all synced_node (sample_block 10 10000 genesis_parents)
      = Inr after_sample_block"
    by (simp add: on_new_tx_block_on_genesis [where b = "0x01"] sample_block_sel
        synced_node_fields after_sample_block_def)
  have st: "state after_sample_block \<noteq> Some INITIALIZING"
    by (simp add: after_sample_block_def synced_node_fields)
  have known: "transaction_exists_by_hash_bytes (tx_storage after_sample_block)
      (hash (sample_block 10 10000 genesis_parents))"
    by (simp add: after_sample_block_def save_new_on_genesis [where b = "0x01"] sample_block_sel
        transaction_exists_by_hash_bytes_def)
  from first st known known_vertex_discarded [OF st known, of accept_all]
  show ?thesis by simp
qed

text \<open>
  While the node is \<open>INITIALIZING\<close> the test for a known hash is skipped: the genesis
  block, which the storage holds, passes \<open>validate_new_tx\<close> and \<open>on_new_tx\<close> goes on
  to add it to \<open>latest_blocks\<close>.
\<close>

theorem known_vertex_initializing_counterexample:
  "transaction_exists_by_hash_bytes (tx_storage (fresh_node\<lparr>state := Some INITIALIZING\<rparr>))
     (hash (BLOCK_GENESIS sample_constants (Some 0)))
   \<and> validate_new_tx accept_all (fresh_node\<lparr>state := Some INITIALIZING\<rparr>)
        (BLOCK_GENESIS sample_constants (Some 0)) = True
   \<and> on_new_tx accept_all (fresh_node\<lparr>state := Some INITIALIZING\<rparr>)
        (BLOCK_GENESIS sample_constants (Some 0)) =
       Inr (fresh_node\<lparr>state := Some INITIALIZING,
                       latest_blocks := [BLOCK_GENESIS sample_constants (Some 0)]\<rparr>)"
  apply (simp add: fresh_node_fields genesis_exists BLOCK_GENESIS_def)
  apply (simp add: validate_new_tx_def on_new_tx_def Let_def accept_all_sel fresh_node_fields)
  apply (simp add: fresh_node_def HathorManager_init_def get_block_count_def genesis_storage_def
      genesis_transactions_def BLOCK_GENESIS_def TX_GENESIS1_def TX_GENESIS2_def
      sample_constants_def)
  done

section \<open>Difficulty retarget\<close>

lemma log2_values: "log 2 64 = 6" "log 2 128 = 7" "1 \<le> log 2 5" "log 2 5 \<le> 3"
proof -
  show "log 2 64 = 6" using log_pow_cancel [of 2 6] by simp
  show "log 2 128 = 7" using log_pow_cancel [of 2 7] by simp
  have "log 2 2 \<le> log 2 5" by (subst log_le_cancel_iff) simp_all
  then show "1 \<le> log 2 5" by simp
  have "log 2 5 \<le> log 2 (2 ^ 3)" by (subst log_le_cancel_iff) simp_all
  also have "\<dots> = 3" using log_pow_cancel [of 2 3] by simp
  finally show "log 2 5 \<le> 3" .
qed

text \<open>
  C1. For every window of \<open>blocks_per_difficulty\<close> blocks in \<open>latest_blocks\<close>,
  \<open>calculate_block_difficulty\<close> returns the average interval and
  \<open>new_weight = max min_block_weight (block_weight + clamp delta (- max_delta) max_delta)\<close>
  where \<open>dt = max 1 (latest.timestamp - earliest.timestamp)\<close> and
  \<open>delta = log2 avg_time_between_blocks + log2 blocks_per_difficulty - log2 dt\<close>.
  The settings are read from the manager; they must be positive for the logarithms to
  exist, and \<open>max_allowed_block_weight_change\<close> non-negative for the two tests of the
  code to be a clamp. At the defaults of the constructor (5, 64, 2, 10) and five blocks
  32 seconds apart, \<open>dt = 128\<close> and the new weight is \<open>9 + log2 5\<close>, about 11.32.
\<close>

theorem calculate_block_difficulty_formula:
  assumes "int (length (latest_blocks m)) = blocks_per_difficulty m"
    and "0 < blocks_per_difficulty m"
    and "0 < avg_time_between_blocks m"
    and "0 \<le> max_allowed_block_weight_change m"
  shows "calculate_block_difficulty m =
     (let dt = max 1 (timestamp (last (latest_blocks m)) - timestamp (hd (latest_blocks m)));
          delta = log 2 (real_of_int (avg_time_between_blocks m))
                  + log 2 (real_of_int (blocks_per_difficulty m)) - log 2 (real_of_int dt)
      in Inr (real_of_int dt / real_of_int (blocks_per_difficulty m),
              max (min_block_weight m)
                  (block_weight m
                   + clamp delta (- max_allowed_block_weight_change m)
                       (max_allowed_block_weight_change m))))"
proof -
  from assms(1,2) have ne: "latest_blocks m \<noteq> []" by auto
  show ?thesis
    using assms ne
    by (auto simp: calculate_block_difficulty_def Let_def py_log2_def clamp_def max_def min_def)
qed

theorem calculate_block_difficulty_formula_witness:
  "int (length (latest_blocks (fresh_node\<lparr>latest_blocks := window\<rparr>)))
     = blocks_per_difficulty (fresh_node\<lparr>latest_blocks := window\<rparr>)
   \<and> blocks_per_difficulty (fresh_node\<lparr>latest_blocks := window\<rparr>) = 5
   \<and> avg_time_between_blocks (fresh_node\<lparr>latest_blocks := window\<rparr>) = 64
   \<and> max_allowed_block_weight_change (fresh_node\<lparr>latest_blocks := window\<rparr>) = 2
   \<and> min_block_weight (fresh_node\<lparr>latest_blocks := window\<rparr>) = 10
   \<and> block_weight (fresh_node\<lparr>latest_blocks := window\<rparr>) = 10
   \<and> timestamp (last window) - timestamp (hd window) = 128
   \<and> calculate_block_difficulty (fresh_node\<lparr>latest_blocks := window\<rparr>)
       = Inr (128 / 5, 9 + log 2 5)"
proof -
  let ?m = "fresh_node\<lparr>latest_blocks := window\<rparr>"
  have f: "int (length (latest_blocks ?m)) = blocks_per_difficulty ?m"
    "blocks_per_difficulty ?m = 5" "avg_time_between_blocks ?m = 64"
    "max_allowed_block_weight_change ?m = 2" "min_block_weight ?m = 10" "block_weight ?m = 10"
    by (simp_all add: fresh_node_def HathorManager_init_def window_def)
  have ts: "timestamp (last window) - timestamp (hd window) = 128"
    by (simp add: window_def)
  have len: "length window = 5"
    by (simp add: window_def)
  have "calculate_block_difficulty ?m = Inr (128 / 5, 9 + log 2 5)"
    using calculate_block_difficulty_formula [of ?m] log2_values
    by (simp add: f ts len Let_def clamp_def)
  with f ts show ?thesis by simp
qed

section \<open>Propagation\<close>

lemma on_new_tx_returns:
  "\<not> is_block tx \<or> \<not> validate_new_tx env m tx \<Longrightarrow> \<exists>m1. on_new_tx env m tx = Inr m1"
  by (auto simp: on_new_tx_def Let_def)

text \<open>
  C7. \<open>propagate_tx\<close> returns exactly when the vertex is bound to no storage or to the
  node's own, \<open>on_new_tx\<close> returns on the vertex bound to the node's storage, and, if
  the state then read is \<open>SYNCED\<close>, the dictionary of connected peers exists. What it
  has sent is then nothing if that state is not \<open>SYNCED\<close>, and the vertex once to every
  connected peer if it is. \<open>on_new_tx\<close> returns for every transaction and for every
  vertex that \<open>validate_new_tx\<close> rejects, and the state read is the state before the
  call whenever the sync manager's hook leaves the state alone. A call that raises has
  sent nothing: the sends are the last statement.
\<close>

theorem propagate_tx_sends_iff_synced:
  "(propagate_tx env m tx = Inr (m1, sent) \<longleftrightarrow>
      (storage tx = None \<or> storage tx = Some (sid (tx_storage m)))
      \<and> on_new_tx env m (tx\<lparr>storage := Some (sid (tx_storage m))\<rparr>) = Inr m1
      \<and> (if state m1 = Some SYNCED
          then \<exists>peers. connected_peers m1 = Some peers
                 \<and> sent = map (\<lambda>conn. (conn, tx\<lparr>storage := Some (sid (tx_storage m))\<rparr>))
                              (map snd peers)
          else sent = []))
   \<and> (\<not> is_block tx \<or> \<not> validate_new_tx env m (tx\<lparr>storage := Some (sid (tx_storage m))\<rparr>)
        \<longrightarrow> (\<exists>m2. on_new_tx env m (tx\<lparr>storage := Some (sid (tx_storage m))\<rparr>) = Inr m2))
   \<and> ((\<forall>m0 v. state (node_sync_on_new_tx env m0 v) = state m0)
        \<and> on_new_tx env m (tx\<lparr>storage := Some (sid (tx_storage m))\<rparr>) = Inr m1
        \<longrightarrow> state m1 = state m)"
proof -
  let ?tx1 = "tx\<lparr>storage := Some (sid (tx_storage m))\<rparr>"
  have bound: "(if storage tx \<noteq> None then tx else ?tx1) = ?tx1"
    if "storage tx = None \<or> storage tx = Some (sid (tx_storage m))"
    using that by auto
  have a: "propagate_tx env m tx = Inr (m1, sent) \<longleftrightarrow>
      (storage tx = None \<or> storage tx = Some (sid (tx_storage m)))
      \<and> on_new_tx env m ?tx1 = Inr m1
      \<and> (if state m1 = Some SYNCED
          then \<exists>peers. connected_peers m1 = Some peers
                 \<and> sent = map (\<lambda>conn. (conn, ?tx1)) (map snd peers)
          else sent = [])"
  proof (cases "storage tx = None \<or> storage tx = Some (sid (tx_storage m))")
    case True
    show ?thesis
      unfolding propagate_tx_def Let_def bound [OF True]
      using True by (auto split: sum.splits option.splits)
  next
    case False
    then show ?thesis
      by (auto simp: propagate_tx_def)
  qed
  have b: "\<not> is_block tx \<or> \<not> validate_new_tx env m ?tx1 \<longrightarrow> (\<exists>m2. on_new_tx env m ?tx1 = Inr m2)"
    using on_new_tx_returns [of ?tx1 env m] by simp
  have c: "(\<forall>m0 v. state (node_sync_on_new_tx env m0 v) = state m0)
        \<and> on_new_tx env m ?tx1 = Inr m1 \<longrightarrow> state m1 = state m"
    by (auto dest: on_new_tx_state)
  from a b c show ?thesis by blast
qed

theorem propagate_tx_sends_iff_synced_witness:
  "propagate_tx accept_all synced_node (sample_block 10 10000 genesis_parents) =
     Inr (synced_node
            \<lparr>tx_storage := save_transaction genesis_storage
               ((sample_block 10 10000 genesis_parents)\<lparr>storage := Some 0\<rparr>),
             latest_blocks := [(sample_block 10 10000 genesis_parents)\<lparr>storage := Some 0\<rparr>]\<rparr>,
          [(7, (sample_block 10 10000 genesis_parents)\<lparr>storage := Some 0\<rparr>),
           (8, (sample_block 10 10000 genesis_parents)\<lparr>storage := Some 0\<rparr>)])
   \<and> propagate_tx accept_all synced_node
        ((sample_block 10 10000 genesis_parents)\<lparr>storage := Some 0\<rparr>) =
     Inr (synced_node
            \<lparr>tx_storage := save_transaction genesis_storage
               ((sample_block 10 10000 genesis_parents)\<lparr>storage := Some 0\<rparr>),
             latest_blocks := [(sample_block 10 10000 genesis_parents)\<lparr>storage := Some 0\<rparr>]\<rparr>,
          [(7, (sample_block 10 10000 genesis_parents)\<lparr>storage := Some 0\<rparr>),
           (8, (sample_block 10 10000 genesis_parents)\<lparr>storage := Some 0\<rparr>)])
   \<and> propagate_tx accept_all waiting_node (sample_block 10 10000 genesis_parents) =
     Inr (waiting_node
            \<lparr>tx_storage := save_transaction genesis_storage
               ((sample_block 10 10000 genesis_parents)\<lparr>storage := Some 0\<rparr>),
             latest_blocks := [(sample_block 10 10000 genesis_parents)\<lparr>storage := Some 0\<rparr>]\<rparr>,
          [])
   \<and> propagate_tx accept_all synced_node
        ((sample_block 10 10000 genesis_parents)\<lparr>storage := Some 5\<rparr>) = Inl AssertionError
   \<and> \<not> is_block tx_on_block
   \<and> propagate_tx accept_all synced_node tx_on_block =
     Inr (node_after_tx, [(7, tx_on_block), (8, tx_on_block)])
   \<and> state node_after_tx = state synced_node"
proof -
  let ?b = "sample_block 10 10000 genesis_parents"
  let ?b1 = "?b\<lparr>storage := Some 0\<rparr>"
  let ?after = "\<lambda>m. m\<lparr>tx_storage := save_transaction genesis_storage ?b1, latest_blocks := [?b1]\<rparr>"
  have sid0: "sid genesis_storage = 0"
    by (simp add: genesis_storage_def)
  have s: "on_new_tx accept_all synced_node ?b1 = Inr (?after synced_node)"
    by (simp add: on_new_tx_block_on_genesis [where b = "0x01"] sample_block_sel
        synced_node_fields)
  have w: "on_new_tx accept_all waiting_node ?b1 = Inr (?after waiting_node)"
    by (simp add: on_new_tx_block_on_genesis [where b = "0x01"] sample_block_sel
        waiting_node_fields)
  have r1: "propagate_tx accept_all synced_node ?b = Inr (?after synced_node, [(7, ?b1), (8, ?b1)])"
    using propagate_tx_sends_iff_synced
      [of accept_all synced_node ?b "?after synced_node" "[(7, ?b1), (8, ?b1)]"]
    by (simp add: sample_block_sel synced_node_fields sid0 s)
  have r2: "propagate_tx accept_all synced_node ?b1 = Inr (?after synced_node, [(7, ?b1), (8, ?b1)])"
    using propagate_tx_sends_iff_synced
      [of accept_all synced_node ?b1 "?after synced_node" "[(7, ?b1), (8, ?b1)]"]
    by (simp add: sample_block_sel synced_node_fields sid0 s)
  have r3: "propagate_tx accept_all waiting_node ?b = Inr (?after waiting_node, [])"
    using propagate_tx_sends_iff_synced [of accept_all waiting_node ?b "?after waiting_node" "[]"]
    by (simp add: sample_block_sel waiting_node_fields sid0 w)
  have r4: "propagate_tx accept_all synced_node (?b\<lparr>storage := Some 5\<rparr>) = Inl AssertionError"
    by (simp add: propagate_tx_def synced_node_fields sid0)
  have x: "\<not> is_block tx_on_block" "tx_on_block\<lparr>storage := Some 0\<rparr> = tx_on_block"
    "storage tx_on_block = Some 0"
    by (simp_all add: tx_on_block_def)
  have n: "state node_after_tx = Some SYNCED"
    "connected_peers node_after_tx = Some [(''a'', 7), (''b'', 8)]"
    by (simp_all add: node_after_tx_def synced_node_fields)
  have r5: "propagate_tx accept_all synced_node tx_on_block =
      Inr (node_after_tx, [(7, tx_on_block), (8, tx_on_block)])"
    using propagate_tx_sends_iff_synced
      [of accept_all synced_node tx_on_block node_after_tx "[(7, tx_on_block), (8, tx_on_block)]"]
    by (simp add: synced_node_fields sid0 x n on_new_tx_tx_on_block)
  have r6: "state node_after_tx = state synced_node"
    using propagate_tx_sends_iff_synced
      [of accept_all synced_node tx_on_block node_after_tx "[(7, tx_on_block), (8, tx_on_block)]"]
    by (simp add: synced_node_fields sid0 x accept_all_sel on_new_tx_tx_on_block)
  from r1 r2 r3 r4 r5 r6 x(1) show ?thesis by simp
qed

section \<open>Peer updates\<close>

text \<open>
  C10. \<open>update_peer\<close> with a peer record that carries the node's own id returns with
  the manager unchanged: nothing is added to the peer storage and no connection is
  attempted. For a record with any other id, the record is added to or merged into the
  peer storage, whether or not the dial that follows raises; nothing but the peer storage
  and the list of dials changes. The call then returns without an exception exactly when
  the peer has no entrypoint, or the dictionary of connected peers exists and either
  holds the peer's id or the chosen entrypoint parses and the dictionary of dials exists.
\<close>

theorem update_peer_own_id_noop:
  "(id_p peer = id_p (my_peer m) \<longrightarrow> update_peer parses rnd m peer = (m, None))
   \<and> (id_p peer \<noteq> id_p (my_peer m) \<longrightarrow>
        peer_storage (fst (update_peer parses rnd m peer)) = add_or_merge (peer_storage m) peer
        \<and> id_p peer \<in> dom (peer_storage (fst (update_peer parses rnd m peer)))
        \<and> (fst (update_peer parses rnd m peer))\<lparr>connecting_peers := connecting_peers m\<rparr>
            = m\<lparr>peer_storage := add_or_merge (peer_storage m) peer\<rparr>
        \<and> (snd (update_peer parses rnd m peer) = None \<longleftrightarrow>
             entrypoints peer = []
             \<or> (\<exists>peers. connected_peers m = Some peers
                   \<and> (id_p peer \<in> set (map fst peers)
                       \<or> parses (entrypoints peer ! (rnd mod length (entrypoints peer)))
                          \<and> connecting_peers m \<noteq> None))))"
  by (auto simp: update_peer_def connect_to_if_not_connected_def connect_to_def
      random_choice_def add_or_merge_def split: option.splits)

theorem update_peer_own_id_noop_witness:
  "id_p sample_peer = id_p (my_peer (started fresh_node))
   \<and> update_peer (\<lambda>d. True) 0 (started fresh_node) sample_peer = (started fresh_node, None)
   \<and> id_p other_peer \<noteq> id_p (my_peer (started fresh_node))
   \<and> peer_storage (started fresh_node) = Map.empty
   \<and> update_peer (\<lambda>d. True) 0 (started fresh_node) other_peer =
       ((started fresh_node)\<lparr>peer_storage := [''peer1'' \<mapsto> other_peer],
                              connecting_peers := Some [''tcp:127.0.0.1:40403'']\<rparr>, None)
   \<and> update_peer (\<lambda>d. False) 0 (started fresh_node) other_peer =
       ((started fresh_node)\<lparr>peer_storage := [''peer1'' \<mapsto> other_peer]\<rparr>, Some ValueError)
   \<and> update_peer (\<lambda>d. True) 0 fresh_node other_peer =
       (fresh_node\<lparr>peer_storage := [''peer1'' \<mapsto> other_peer]\<rparr>, Some AttributeError)"
proof -
  have own: "id_p sample_peer = id_p (my_peer (started fresh_node))"
    by (simp add: started_def fresh_node_fields)
  have other: "id_p other_peer \<noteq> id_p (my_peer (started fresh_node))"
    by (simp add: started_def fresh_node_fields other_peer_def sample_peer_def)
  have init: "peer_storage (started fresh_node) = Map.empty"
    by (simp add: started_def fresh_node_def HathorManager_init_def)
  have run:
    "update_peer (\<lambda>d. True) 0 (started fresh_node) other_peer =
       ((started fresh_node)\<lparr>peer_storage := [''peer1'' \<mapsto> other_peer],
                              connecting_peers := Some [''tcp:127.0.0.1:40403'']\<rparr>, None)"
    "update_peer (\<lambda>d. False) 0 (started fresh_node) other_peer =
       ((started fresh_node)\<lparr>peer_storage := [''peer1'' \<mapsto> other_peer]\<rparr>, Some ValueError)"
    "update_peer (\<lambda>d. True) 0 fresh_node other_peer =
       (fresh_node\<lparr>peer_storage := [''peer1'' \<mapsto> other_peer]\<rparr>, Some AttributeError)"
    by (simp_all add: update_peer_def connect_to_if_not_connected_def connect_to_def
        random_choice_def add_or_merge_def started_def fresh_node_def HathorManager_init_def
        other_peer_def sample_peer_def)
  from own other init run
    update_peer_own_id_noop [of sample_peer "started fresh_node" "\<lambda>d. True" 0]
    update_peer_own_id_noop [of other_peer "started fresh_node" "\<lambda>d. True" 0]
  show ?thesis by simp
qed

section \<open>Mining on the genesis vertices\<close>

lemma genesis_sel:
  "hash (BLOCK_GENESIS c r) = Some BLOCK_GENESIS_HASH" "is_block (BLOCK_GENESIS c r)"
  "parents (BLOCK_GENESIS c r) = []" "height (BLOCK_GENESIS c r) = 1"
  "hash (TX_GENESIS1 c r) = Some TX_GENESIS1_HASH" "\<not> is_block (TX_GENESIS1 c r)"
  "parents (TX_GENESIS1 c r) = []" "height (TX_GENESIS1 c r) = 1"
  "hash (TX_GENESIS2 c r) = Some TX_GENESIS2_HASH" "\<not> is_block (TX_GENESIS2 c r)"
  "parents (TX_GENESIS2 c r) = []" "height (TX_GENESIS2 c r) = 1"
  by (simp_all add: BLOCK_GENESIS_def TX_GENESIS1_def TX_GENESIS2_def)

lemma genesis_tips:
  assumes "transactions st = genesis_transactions c r"
  shows "get_tip_blocks_hashes st = [Some BLOCK_GENESIS_HASH]"
    and "all_tip_transactions st = [TX_GENESIS1 c r, TX_GENESIS2 c r]"
  using assms
  by (simp_all add: get_tip_blocks_hashes_def all_tip_transactions_def has_block_child_def
      has_child_def genesis_transactions_def genesis_sel)

lemma genesis_lookup:
  assumes "transactions st = genesis_transactions c r"
  shows "get_transactions st
           [Some BLOCK_GENESIS_HASH, Some TX_GENESIS1_HASH, Some TX_GENESIS2_HASH]
           = Inr [BLOCK_GENESIS c r, TX_GENESIS1 c r, TX_GENESIS2 c r]"
  using assms genesis_hashes_distinct
  by (auto simp add: get_transaction_by_hash_bytes_def genesis_transactions_def genesis_sel)

lemma generate_mining_block_on_genesis:
  assumes "transactions (tx_storage m) = genesis_transactions c r"
  shows "generate_mining_block address now rnd m =
     Inr \<lparr>is_block = True, hash = None, nonce = 0, timestamp = now,
          weight = Finite (block_weight m), height = 2,
          outputs = [\<lparr>out_value = tokens_issued_per_block m, out_script = address\<rparr>],
          parents = [Some BLOCK_GENESIS_HASH, Some TX_GENESIS1_HASH, Some TX_GENESIS2_HASH],
          storage = Some (sid (tx_storage m))\<rparr>"
proof -
  have tips: "get_new_tx_parents rnd m = Inr [Some TX_GENESIS1_HASH, Some TX_GENESIS2_HASH]"
    by (simp add: get_new_tx_parents_def get_tip_transactions_def genesis_tips [OF assms]
        genesis_sel)
  show ?thesis
    unfolding generate_mining_block_def Let_def tips genesis_tips(1) [OF assms]
    by (simp add: genesis_lookup [OF assms] genesis_sel py_max_def del: get_transactions.simps)
qed

text \<open>
  C2, as the code has it. On a node whose storage holds the three genesis vertices and
  nothing else, \<open>generate_mining_block\<close> returns a block of height 2 whose parents are
  the genesis block followed by the two genesis transactions: three parents, the tip
  blocks followed by the transaction parents.
\<close>

theorem generate_mining_block_genesis:
  assumes "transactions (tx_storage m) = genesis_transactions c r"
  shows "\<exists>b. generate_mining_block address now rnd m = Inr b
           \<and> parents b = [Some BLOCK_GENESIS_HASH, Some TX_GENESIS1_HASH, Some TX_GENESIS2_HASH]
           \<and> length (parents b) = 3 \<and> height b = 2"
  by (simp add: generate_mining_block_on_genesis [OF assms])

theorem generate_mining_block_genesis_witness:
  "transactions (tx_storage fresh_node) = genesis_transactions sample_constants (Some 0)
   \<and> (\<exists>b. generate_mining_block GENESIS_OUTPUT_SCRIPT 1539271500 0 fresh_node = Inr b
           \<and> parents b = [Some BLOCK_GENESIS_HASH, Some TX_GENESIS1_HASH, Some TX_GENESIS2_HASH]
           \<and> length (parents b) = 3 \<and> height b = 2)"
proof -
  have g: "transactions (tx_storage fresh_node) = genesis_transactions sample_constants (Some 0)"
    by (simp add: fresh_node_fields genesis_storage_def)
  from g generate_mining_block_genesis [OF g, of GENESIS_OUTPUT_SCRIPT 1539271500 0]
  show ?thesis by simp
qed

text \<open>The block mined on the sample node has three parents, not two.\<close>

theorem generate_mining_block_two_parents_counterexample:
  "transactions (tx_storage fresh_node) = genesis_transactions sample_constants (Some 0)
   \<and> generate_mining_block GENESIS_OUTPUT_SCRIPT 1539271500 0 fresh_node = Inr mined_on_genesis
   \<and> length (parents mined_on_genesis) = 3
   \<and> length (parents mined_on_genesis) \<noteq> 2"
proof -
  have g: "transactions (tx_storage fresh_node) = genesis_transactions sample_constants (Some 0)"
    by (simp add: fresh_node_fields genesis_storage_def)
  show ?thesis
    by (simp add: g generate_mining_block_on_genesis [OF g] mined_on_genesis_def
        fresh_node_fields genesis_storage_def)
qed

section \<open>Parents of a new transaction\<close>








section \<open>The round trip of the metadata through JSON\<close>

lemma hex_digits_table:
  "list_all (\<lambda>n. hex_value (hex_digit n) = Some n \<and> \<not> is_space (hex_digit n)) [0..<16]"
  by code_simp

lemma hex_digit_value:
  assumes "n < 16"
  shows "hex_value (hex_digit n) = Some n" and "\<not> is_space (hex_digit n)"
proof -
  from assms have "n \<in> set [0..<16]" by simp
  with hex_digits_table
  have "hex_value (hex_digit n) = Some n \<and> \<not> is_space (hex_digit n)"
    unfolding list_all_iff by blast
  then show "hex_value (hex_digit n) = Some n" and "\<not> is_space (hex_digit n)"
    by simp_all
qed

lemma fromhex_hex: "fromhex (hex bs) = Inr bs"
proof (induction bs)
  case Nil
  then show ?case by (simp add: hex_def)
next
  case (Cons b bs)
  have d: "unat b div 16 < 16" "unat b mod 16 < 16"
    using unsigned_less [of b] by (simp_all add: div_less_iff_less_mult)
  have w: "word_of_nat (16 * (unat b div 16) + unat b mod 16) = b"
    by (simp add: mult_div_mod_eq)
  from Cons show ?case
    by (simp add: hex_def hex_digit_value [OF d(1)] hex_digit_value [OF d(2)] w
        del: of_nat_add of_nat_mult)
qed

text \<open>The byte strings of \<^verbatim>\<open>genesis.py\<close> are those of its hexadecimal literals.\<close>

lemma genesis_hex_literals:
  "fromhex ''0002ed2460bcdcd804b2fe04ec92e53447efe393b11432d4d1cf68bc05606b67''
     = Inr BLOCK_GENESIS_HASH"
  "fromhex ''00012a1df41aaf1dda05942c522ff4f56fdca5160193e0111ef84e474d294603''
     = Inr TX_GENESIS1_HASH"
  "fromhex ''00002dd4f867bfb1cba75c6073469bf76faa3aff24cf80fb006ed848ec771373''
     = Inr TX_GENESIS2_HASH"
  "fromhex ''76a914fd05059b6006249543b82f36876a17c73fd2267b88ac''
     = Inr GENESIS_OUTPUT_SCRIPT"
  by code_simp+

lemma hex_empty_iff: "hex bs = [] \<longleftrightarrow> bs = []"
  by (cases bs) (simp_all add: hex_def)

lemma set_fold_set_add: "set (fold set_add xs acc) = set xs \<union> set acc"
  by (induction xs arbitrary: acc) (auto simp: set_add_def)

lemma set_py_set: "set (py_set xs) = set xs"
  by (simp add: py_set_def set_fold_set_add)

lemma fromhex_all_hex: "fromhex_all (map hex bs) = Inr bs"
  by (induction bs) (simp_all add: fromhex_hex)

lemma fromhex_set_hex: "fromhex_set (map hex bs) = Inr (py_set bs)"
  by (simp add: fromhex_set_def fromhex_all_hex)

lemma map_of_update_key:
  "map_of (map (\<lambda>(k, v). if k = idx then (k, f v) else (k, v)) d) k
     = (if k = idx then map_option f (map_of d k) else map_of d k)"
  by (induction d) auto

lemma spenders_defaultdict_add:
  "spenders (defaultdict_add idx x d) =
     (spenders d)(idx \<mapsto> insert x (case spenders d idx of None \<Rightarrow> {} | Some s \<Rightarrow> s))"
proof (cases "map_of d idx")
  case None
  then show ?thesis
    by (auto simp: spenders_def defaultdict_add_def map_add_def fun_eq_iff split: option.splits)
next
  case (Some s)
  then show ?thesis
    by (auto simp: spenders_def defaultdict_add_def map_of_update_key set_add_def fun_eq_iff)
qed

lemma spenders_fold_add:
  "spenders (fold (defaultdict_add idx) hs d) =
     (if hs = [] then spenders d
      else (spenders d)(idx \<mapsto> set hs \<union> (case spenders d idx of None \<Rightarrow> {} | Some s \<Rightarrow> s)))"
proof (induction hs arbitrary: d)
  case Nil
  then show ?case by simp
next
  case (Cons h hs)
  show ?case
    by (simp add: Cons.IH spenders_defaultdict_add) (auto simp: fun_eq_iff)
qed

lemma spenders_fold_all:
  assumes "distinct (map fst d)" and "\<forall>(k, s) \<in> set d. s \<noteq> []"
  shows "spenders (fold (\<lambda>(idx, hs). fold (defaultdict_add idx) hs) d acc) k =
     (case map_of d k of
        None \<Rightarrow> spenders acc k
      | Some s \<Rightarrow> Some (set s \<union> (case spenders acc k of None \<Rightarrow> {} | Some t \<Rightarrow> t)))"
  using assms
proof (induction d arbitrary: acc)
  case Nil
  then show ?case by simp
next
  case (Cons e d)
  obtain idx hs where e: "e = (idx, hs)" by (cases e)
  from Cons.prems e have ne: "hs \<noteq> []" and fresh: "map_of d idx = None"
    and d: "distinct (map fst d)" "\<forall>(k, s) \<in> set d. s \<noteq> []"
    by (auto simp: map_of_eq_None_iff)
  show ?case
    using ne fresh
    by (auto simp: e Cons.IH [OF d] spenders_fold_add split: option.splits)
qed

lemma dict_eq_spenders: "dict_eq d1 d2 \<longleftrightarrow> spenders d1 = spenders d2"
proof
  assume eq: "spenders d1 = spenders d2"
  have "dom (spenders d) = dom (map_of d)" for d :: "('a \<times> 'b list) list"
    by (auto simp: spenders_def dom_def)
  then have "dom (spenders d1) = set (map fst d1)" "dom (spenders d2) = set (map fst d2)"
    by (simp_all add: dom_map_of_conv_image_fst)
  with eq have "set (map fst d1) = set (map fst d2)" by simp
  moreover from eq have "map_option set (map_of d1 k) = map_option set (map_of d2 k)" for k
    by (simp add: spenders_def fun_eq_iff)
  ultimately show "dict_eq d1 d2"
    by (simp add: dict_eq_def list_all_iff)
next
  assume deq: "dict_eq d1 d2"
  show "spenders d1 = spenders d2"
  proof
    fix k
    show "spenders d1 k = spenders d2 k"
    proof (cases "k \<in> set (map fst d1)")
      case True
      from deq have "\<forall>x \<in> set (map fst d1).
          map_option set (map_of d1 x) = map_option set (map_of d2 x)"
        unfolding dict_eq_def list_all_iff by blast
      with True show ?thesis
        unfolding spenders_def by blast
    next
      case False
      with deq have "k \<notin> set (map fst d2)"
        by (simp add: dict_eq_def)
      with False have "map_of d1 k = None" "map_of d2 k = None"
        by (simp_all add: map_of_eq_None_iff)
      then show ?thesis
        by (simp add: spenders_def)
    qed
  qed
qed

lemma spent_outputs_roundtrip:
  assumes "distinct (map fst d)" and "\<forall>(k, s) \<in> set d. s \<noteq> []"
  shows "dict_eq d (fold (\<lambda>(idx, hs). fold (defaultdict_add idx) hs) d [])"
  unfolding dict_eq_spenders
proof
  fix k
  show "spenders d k = spenders (fold (\<lambda>(idx, hs). fold (defaultdict_add idx) hs) d []) k"
    by (simp add: spenders_fold_all [OF assms]) (simp add: spenders_def split: option.splits)
qed

lemma load_first_block_hex:
  "fb \<noteq> Some [] \<Longrightarrow> load_first_block (map_option hex fb) = Inr fb"
  by (cases fb) (simp_all add: load_first_block_def hex_empty_iff fromhex_hex)

subsection \<open>Reading the heap\<close>

lemma then_do_simps [simp]:
  "then_do (Inr x) f = f x" "then_do (Inl e) f = Inl e"
  by (simp_all add: then_do_def)

lemma readers_append:
  assumes "a < length h"
  shows "bytes_set_at (h @ ys) a = bytes_set_at h a"
    and "int_set_at (h @ ys) a = int_set_at h a"
    and "dict_at (h @ ys) a = dict_at h a"
    and "metadata_at (h @ ys) a = metadata_at h a"
  using assms
  by (simp_all add: bytes_set_at_def int_set_at_def dict_at_def metadata_at_def nth_append)

lemma reader_bound:
  "bytes_set_at h a = Inr xs \<Longrightarrow> a < length h"
  "int_set_at h a = Inr ys \<Longrightarrow> a < length h"
  "dict_at h a = Inr items \<Longrightarrow> a < length h"
  "metadata_at h a = Inr f \<Longrightarrow> a < length h"
  by (auto simp: bytes_set_at_def int_set_at_def dict_at_def metadata_at_def split: if_splits)

lemma dict_items_append:
  "dict_items h items = Inr xs \<Longrightarrow> dict_items (h @ ys) items = Inr xs"
proof (induction items arbitrary: xs)
  case Nil
  then show ?case by simp
next
  case (Cons e items)
  obtain k s where e: "e = (k, s)" by (cases e)
  from Cons.prems e obtain x rest where
    x: "bytes_set_at h s = Inr x" and rest: "dict_items h items = Inr rest"
    and xs: "xs = (k, x) # rest"
    by (auto split: sum.splits)
  from x have "s < length h" by (rule reader_bound)
  with x rest xs Cons.IH [OF rest] show ?case
    by (simp add: e readers_append)
qed

lemma dict_items_bound:
  "dict_items h items = Inr xs \<Longrightarrow> set (map snd items) \<subseteq> {..<length h}"
proof (induction items arbitrary: xs)
  case Nil
  then show ?case by simp
next
  case (Cons e items)
  obtain k s where e: "e = (k, s)" by (cases e)
  from Cons.prems e obtain x rest where
    x: "bytes_set_at h s = Inr x" and rest: "dict_items h items = Inr rest"
    by (auto split: sum.splits)
  from x have "s < length h" by (rule reader_bound)
  with Cons.IH [OF rest] show ?case
    by (simp add: e)
qed

lemma view_parts:
  assumes "view h a = Inr v"
  obtains f items where "metadata_at h a = Inr f" "dict_at h (spent_outputs f) = Inr items"
    "dict_items h items = Inr (v_spent_outputs v)"
    "bytes_set_at h (conflict_with f) = Inr (v_conflict_with v)"
    "bytes_set_at h (voided_by f) = Inr (v_voided_by v)"
    "int_set_at h (received_by f) = Inr (v_received_by v)"
    "bytes_set_at h (children f) = Inr (v_children v)"
    "bytes_set_at h (twins f) = Inr (v_twins v)"
    "v_hash v = hash_md f" "v_accumulated_weight v = accumulated_weight f"
    "v_score v = score f" "v_first_block v = first_block f"
  using assms
  by (auto simp: view_def then_do_def split: sum.splits)

lemma view_append:
  assumes "view h a = Inr v"
  shows "view (h @ ys) a = Inr v"
proof -
  from assms obtain f items where p:
    "metadata_at h a = Inr f" "dict_at h (spent_outputs f) = Inr items"
    "dict_items h items = Inr (v_spent_outputs v)"
    "bytes_set_at h (conflict_with f) = Inr (v_conflict_with v)"
    "bytes_set_at h (voided_by f) = Inr (v_voided_by v)"
    "int_set_at h (received_by f) = Inr (v_received_by v)"
    "bytes_set_at h (children f) = Inr (v_children v)"
    "bytes_set_at h (twins f) = Inr (v_twins v)"
    "v_hash v = hash_md f" "v_accumulated_weight v = accumulated_weight f"
    "v_score v = score f" "v_first_block v = first_block f"
    by (rule view_parts)
  note b = reader_bound(4) [OF p(1)] reader_bound(3) [OF p(2)] reader_bound(1) [OF p(4)]
    reader_bound(1) [OF p(5)] reader_bound(2) [OF p(6)] reader_bound(1) [OF p(7)]
    reader_bound(1) [OF p(8)]
  show ?thesis
    using p
    by (simp add: view_def readers_append b dict_items_append [OF p(3)])
qed

lemma reachable_old:
  assumes "view h a = Inr v"
  shows "reachable (h @ ys) a = reachable h a" and "reachable h a \<subseteq> {..<length h}"
proof -
  from assms obtain f items where p:
    "metadata_at h a = Inr f" "dict_at h (spent_outputs f) = Inr items"
    "dict_items h items = Inr (v_spent_outputs v)"
    "bytes_set_at h (conflict_with f) = Inr (v_conflict_with v)"
    "bytes_set_at h (voided_by f) = Inr (v_voided_by v)"
    "int_set_at h (received_by f) = Inr (v_received_by v)"
    "bytes_set_at h (children f) = Inr (v_children v)"
    "bytes_set_at h (twins f) = Inr (v_twins v)"
    "v_hash v = hash_md f" "v_accumulated_weight v = accumulated_weight f"
    "v_score v = score f" "v_first_block v = first_block f"
    by (rule view_parts)
  note b = reader_bound(4) [OF p(1)] reader_bound(3) [OF p(2)] reader_bound(1) [OF p(4)]
    reader_bound(1) [OF p(5)] reader_bound(2) [OF p(6)] reader_bound(1) [OF p(7)]
    reader_bound(1) [OF p(8)]
  show "reachable (h @ ys) a = reachable h a"
    using p(1,2) by (simp add: reachable_def readers_append b)
  show "reachable h a \<subseteq> {..<length h}"
    using p(1,2) b dict_items_bound [OF p(3)]
    by (auto simp: reachable_def)
qed

lemma map_of_items_view:
  "map_of (items_view h items) k = map_option (set_contents h) (map_of items k)"
  by (simp add: items_view_def map_of_map)

lemma dict_inv_read:
  assumes "dict_inv n h d items"
  shows "dict_at h d = Inr items" and "dict_items h items = Inr (items_view h items)"
proof -
  from assms show "dict_at h d = Inr items"
    by (simp add: dict_inv_def dict_at_def)
  from assms have "list_all (\<lambda>s. s < length h \<and> h ! s = Bytes_set (set_contents h s))
      (map snd items)"
    by (auto simp: dict_inv_def list_all_iff)
  then show "dict_items h items = Inr (items_view h items)"
    by (induction items) (auto simp: items_view_def bytes_set_at_def)
qed

lemma same_set_same_key:
  assumes "distinct (map snd items)" and "(k1, s) \<in> set items" and "(k2, s) \<in> set items"
  shows "k1 = k2"
proof -
  from assms(1) have "inj_on snd (set items)"
    by (simp add: distinct_map)
  from inj_onD [OF this _ assms(2,3)] show ?thesis by simp
qed

lemma add_spender_known:
  assumes inv: "dict_inv n h d items" and known: "map_of items idx = Some s"
  shows "then_do (spender_set h d idx) (\<lambda>(h1, s). set_add_at h1 s b)
           = Inr (h[s := Bytes_set (set_add b (set_contents h s))])"
    and "dict_inv n (h[s := Bytes_set (set_add b (set_contents h s))]) d items"
    and "items_view (h[s := Bytes_set (set_add b (set_contents h s))]) items
           = defaultdict_add idx b (items_view h items)"
    and "take n (h[s := Bytes_set (set_add b (set_contents h s))]) = take n h"
proof -
  let ?h = "h[s := Bytes_set (set_add b (set_contents h s))]"
  from known have mem: "(idx, s) \<in> set items"
    by (rule map_of_SomeD)
  then have "s \<in> set (map snd items)" by force
  with inv have s: "n \<le> s" "s < length h" "s \<noteq> d" "h ! s = Bytes_set (set_contents h s)"
    by (auto simp: dict_inv_def list_all_iff)
  from inv have dk: "distinct (map fst items)" and ds: "distinct (map snd items)"
    by (simp_all add: dict_inv_def)
  show "then_do (spender_set h d idx) (\<lambda>(h1, s). set_add_at h1 s b) = Inr ?h"
    using s by (simp add: spender_set_def dict_inv_read(1) [OF inv] known set_add_at_def
        bytes_set_at_def)
  have cont: "set_contents ?h s' = (if s' = s then set_add b (set_contents h s)
      else set_contents h s')" for s'
    using s(2) by (simp add: set_contents_def)
  show "dict_inv n ?h d items"
    using inv s cont
    by (auto simp: dict_inv_def list_all_iff nth_list_update)
  show "items_view ?h items = defaultdict_add idx b (items_view h items)"
  proof -
    have "map_of (items_view h items) idx = Some (set_contents h s)"
      by (simp add: map_of_items_view known)
    moreover have "items_view ?h items
        = map (\<lambda>(k, v). if k = idx then (k, set_add b v) else (k, v)) (items_view h items)"
      unfolding items_view_def map_map
    proof (rule map_cong [OF refl])
      fix e assume e: "e \<in> set items"
      obtain k s' where ks: "e = (k, s')" by (cases e)
      show "(case e of (k, s) \<Rightarrow> (k, set_contents ?h s))
          = ((\<lambda>(k, v). if k = idx then (k, set_add b v) else (k, v))
              \<circ> (\<lambda>(k, s). (k, set_contents h s))) e"
      proof (cases "k = idx")
        case True
        with e ks mem dk have "s' = s"
          by (metis eq_key_imp_eq_value)
        with True show ?thesis by (simp add: ks cont)
      next
        case False
        with e ks mem same_set_same_key [OF ds] have "s' \<noteq> s" by blast
        with False show ?thesis by (simp add: ks cont)
      qed
    qed
    ultimately show ?thesis
      by (simp add: defaultdict_add_def)
  qed
  show "take n ?h = take n h"
    using s(1) by simp
qed

lemma add_spender_new:
  assumes inv: "dict_inv n h d items" and new: "map_of items idx = None"
  shows "then_do (spender_set h d idx) (\<lambda>(h1, s). set_add_at h1 s b)
           = Inr ((h @ [Bytes_set [b]])[d := Dict (items @ [(idx, length h)])])"
    and "dict_inv n ((h @ [Bytes_set [b]])[d := Dict (items @ [(idx, length h)])]) d
           (items @ [(idx, length h)])"
    and "items_view ((h @ [Bytes_set [b]])[d := Dict (items @ [(idx, length h)])])
           (items @ [(idx, length h)])
           = defaultdict_add idx b (items_view h items)"
    and "take n ((h @ [Bytes_set [b]])[d := Dict (items @ [(idx, length h)])]) = take n h"
proof -
  let ?items = "items @ [(idx, length h)]"
  let ?h = "(h @ [Bytes_set [b]])[d := Dict ?items]"
  from inv have d: "n \<le> d" "d < length h" "h ! d = Dict items"
    and dk: "distinct (map fst items)" and ds: "distinct (map snd items)"
    and sets: "\<forall>s \<in> set (map snd items).
        n \<le> s \<and> s < length h \<and> s \<noteq> d \<and> h ! s = Bytes_set (set_contents h s)"
    by (auto simp: dict_inv_def list_all_iff)
  have step: "((h @ [Bytes_set []])[d := Dict ?items])[length h := Bytes_set [b]] = ?h"
    using d(2) by (simp add: list_update_swap list_update_append)
  show "then_do (spender_set h d idx) (\<lambda>(h1, s). set_add_at h1 s b) = Inr ?h"
    using d(2) step
    by (simp add: spender_set_def dict_inv_read(1) [OF inv] new alloc_def set_add_at_def
        bytes_set_at_def set_add_def nth_list_update nth_append)
  have cont: "set_contents ?h s = set_contents h s" if "s \<in> set (map snd items)" for s
    using sets that d(2) by (auto simp: set_contents_def nth_list_update nth_append)
  have contn: "set_contents ?h (length h) = [b]"
    using d(2) by (simp add: set_contents_def nth_list_update nth_append)
  from new have fresh: "idx \<notin> set (map fst items)"
    by (simp add: map_of_eq_None_iff)
  from sets have newaddr: "length h \<notin> set (map snd items)"
    by auto
  show "dict_inv n ?h d ?items"
    using d dk ds sets fresh newaddr cont contn
    by (auto simp: dict_inv_def list_all_iff nth_list_update nth_append)
  have cont2: "set_contents ?h s = set_contents h s" if "(k, s) \<in> set items" for k s
    using that by (intro cont) force
  have "items_view ?h items = items_view h items"
    unfolding items_view_def
    by (rule map_cong [OF refl]) (auto simp: cont2)
  then have "items_view ?h ?items = items_view h items @ [(idx, [b])]"
    by (simp add: items_view_def contn)
  moreover have "map_of (items_view h items) idx = None"
    by (simp add: map_of_items_view new)
  ultimately show "items_view ?h ?items = defaultdict_add idx b (items_view h items)"
    by (simp add: defaultdict_add_def)
  show "take n ?h = take n h"
    using d(1,2) by simp
qed

lemma add_spender_step:
  assumes inv: "dict_inv n h d items"
  shows "\<exists>h1 items1. then_do (spender_set h d idx) (\<lambda>(h1, s). set_add_at h1 s b) = Inr h1
      \<and> dict_inv n h1 d items1
      \<and> items_view h1 items1 = defaultdict_add idx b (items_view h items)
      \<and> take n h1 = take n h \<and> length h \<le> length h1"
proof (cases "map_of items idx")
  case None
  from add_spender_new [OF inv None, of b] show ?thesis
    by (intro exI conjI) (assumption, assumption, assumption, assumption, simp)
next
  case (Some s)
  from add_spender_known [OF inv Some, of b] show ?thesis
    by (intro exI conjI) (assumption, assumption, assumption, assumption, simp)
qed

lemma add_spenders_Cons_hex:
  "add_spenders h d idx (hex x # hashes) =
     then_do (then_do (spender_set h d idx) (\<lambda>(h1, s). set_add_at h1 s x))
       (\<lambda>h2. add_spenders h2 d idx hashes)"
  by (simp add: fromhex_hex) (simp add: then_do_def split: sum.splits prod.splits)

lemma add_spenders_hex:
  assumes "dict_inv n h d items"
  shows "\<exists>h1 items1. add_spenders h d idx (map hex hs) = Inr h1
      \<and> dict_inv n h1 d items1
      \<and> items_view h1 items1 = fold (defaultdict_add idx) hs (items_view h items)
      \<and> take n h1 = take n h \<and> length h \<le> length h1"
  using assms
proof (induction hs arbitrary: h items)
  case Nil
  then show ?case by auto
next
  case (Cons x hs)
  from add_spender_step [OF Cons.prems, of idx x] obtain h1 items1 where
    s: "then_do (spender_set h d idx) (\<lambda>(h1, s). set_add_at h1 s x) = Inr h1"
    and i: "dict_inv n h1 d items1"
    and v: "items_view h1 items1 = defaultdict_add idx x (items_view h items)"
    and t: "take n h1 = take n h" and l: "length h \<le> length h1"
    by blast
  from Cons.IH [OF i] obtain h2 items2 where
    "add_spenders h1 d idx (map hex hs) = Inr h2" "dict_inv n h2 d items2"
    "items_view h2 items2 = fold (defaultdict_add idx) hs (items_view h1 items1)"
    "take n h2 = take n h1" "length h1 \<le> length h2"
    by blast
  with s v t l show ?case
    by (auto simp: add_spenders_Cons_hex simp del: add_spenders.simps)
qed

lemma load_spent_outputs_hex:
  assumes "dict_inv n h d items"
  shows "\<exists>h1 items1.
      load_spent_outputs h d (map (\<lambda>(idx, hashes). (idx, map hex hashes)) dv) = Inr h1
      \<and> dict_inv n h1 d items1
      \<and> items_view h1 items1
          = fold (\<lambda>(idx, hs). fold (defaultdict_add idx) hs) dv (items_view h items)
      \<and> take n h1 = take n h \<and> length h \<le> length h1"
  using assms
proof (induction dv arbitrary: h items)
  case Nil
  then show ?case by auto
next
  case (Cons e dv)
  obtain idx hs where e: "e = (idx, hs)" by (cases e)
  from add_spenders_hex [OF Cons.prems, of idx hs] obtain h1 items1 where
    s: "add_spenders h d idx (map hex hs) = Inr h1"
    and i: "dict_inv n h1 d items1"
    and v: "items_view h1 items1 = fold (defaultdict_add idx) hs (items_view h items)"
    and t: "take n h1 = take n h" and l: "length h \<le> length h1"
    by blast
  from Cons.IH [OF i] obtain h2 items2 where
    "load_spent_outputs h1 d (map (\<lambda>(idx, hashes). (idx, map hex hashes)) dv) = Inr h2"
    "dict_inv n h2 d items2"
    "items_view h2 items2
       = fold (\<lambda>(idx, hs). fold (defaultdict_add idx) hs) dv (items_view h1 items1)"
    "take n h2 = take n h1" "length h1 \<le> length h2"
    by blast
  with s v t l show ?case
    by (auto simp: e)
qed

lemma init_heap:
  "TransactionMetadata_init h =
     (h @ [Dict [], Bytes_set [], Bytes_set [], Int_set [], Bytes_set [], Bytes_set []],
      \<lparr>hash_md = None, spent_outputs = length h, conflict_with = length h + 1,
       voided_by = length h + 2, received_by = length h + 3, children = length h + 4,
       twins = length h + 5, accumulated_weight = Finite 0, score = Finite 0,
       first_block = None\<rparr>)"
  by (simp add: TransactionMetadata_init_def alloc_def)

lemma dict_inv_init:
  "dict_inv (length h)
     (h @ [Dict [], Bytes_set [], Bytes_set [], Int_set [], Bytes_set [], Bytes_set []])
     (length h) []"
  by (simp add: dict_inv_def)

lemma clone_result:
  assumes v: "view h self = Inr v" and hash: "v_hash v = Some x" "x \<noteq> []"
    and fb: "v_first_block v \<noteq> Some []"
  shows "\<exists>data h1 items1. to_json h self = Inr data
      \<and> create_from_json h data
          = Inr (h1 @ copy_objects (length h) (length h1) v, length h1 + 5)
      \<and> dict_inv (length h) h1 (length h) items1
      \<and> items_view h1 items1
          = fold (\<lambda>(idx, hs). fold (defaultdict_add idx) hs) (v_spent_outputs v) []
      \<and> take (length h) h1 = h"
proof -
  let ?h0 = "h @ [Dict [], Bytes_set [], Bytes_set [], Int_set [], Bytes_set [], Bytes_set []]"
  from load_spent_outputs_hex [OF dict_inv_init, of h "v_spent_outputs v"]
  obtain h1 items1 where
    l: "load_spent_outputs ?h0 (length h)
          (map (\<lambda>(idx, hashes). (idx, map hex hashes)) (v_spent_outputs v)) = Inr h1"
    and i: "dict_inv (length h) h1 (length h) items1"
    and iv: "items_view h1 items1
          = fold (\<lambda>(idx, hs). fold (defaultdict_add idx) hs) (v_spent_outputs v)
              (items_view ?h0 [])"
    and t: "take (length h) h1 = take (length h) ?h0"
    by blast
  have "create_from_json h
      \<lparr>j_hash = JStr (hex x),
       j_spent_outputs = map (\<lambda>(idx, hashes). (idx, map hex hashes)) (v_spent_outputs v),
       j_received_by = v_received_by v,
       j_children = map hex (v_children v),
       j_conflict_with = Some (map hex (v_conflict_with v)),
       j_voided_by = Some (map hex (v_voided_by v)),
       j_twins = Some (map hex (v_twins v)),
       j_accumulated_weight = v_accumulated_weight v,
       j_score = Some (v_score v),
       j_first_block = map_option hex (v_first_block v)\<rparr>
      = Inr (h1 @ copy_objects (length h) (length h1) v, length h1 + 5)"
    using l hash(1)
    by (simp add: create_from_json_def init_heap fromhex_hex fromhex_set_hex
        fromhex_set_opt_def load_first_block_hex [OF fb] alloc_def copy_objects_def)
  moreover have "to_json h self = Inr
      \<lparr>j_hash = JStr (hex x),
       j_spent_outputs = map (\<lambda>(idx, hashes). (idx, map hex hashes)) (v_spent_outputs v),
       j_received_by = v_received_by v,
       j_children = map hex (v_children v),
       j_conflict_with = Some (map hex (v_conflict_with v)),
       j_voided_by = Some (map hex (v_voided_by v)),
       j_twins = Some (map hex (v_twins v)),
       j_accumulated_weight = v_accumulated_weight v,
       j_score = Some (v_score v),
       j_first_block = map_option hex (v_first_block v)\<rparr>"
    using v hash by (simp add: to_json_def)
  moreover from iv have "items_view h1 items1
      = fold (\<lambda>(idx, hs). fold (defaultdict_add idx) hs) (v_spent_outputs v) []"
    by (simp add: items_view_def)
  moreover from t have "take (length h) h1 = h" by simp
  ultimately show ?thesis
    using i by blast
qed

lemma view_intro:
  assumes "metadata_at h a = Inr f" and "dict_at h (spent_outputs f) = Inr items"
    and "dict_items h items = Inr sp"
    and "bytes_set_at h (conflict_with f) = Inr cw"
    and "bytes_set_at h (voided_by f) = Inr vb"
    and "int_set_at h (received_by f) = Inr rb"
    and "bytes_set_at h (children f) = Inr ch"
    and "bytes_set_at h (twins f) = Inr tw"
  shows "view h a = Inr \<lparr>v_hash = hash_md f, v_spent_outputs = sp, v_conflict_with = cw,
      v_voided_by = vb, v_received_by = rb, v_children = ch, v_twins = tw,
      v_accumulated_weight = accumulated_weight f, v_score = score f,
      v_first_block = first_block f\<rparr>"
  using assms by (simp add: view_def)

lemma view_copy:
  assumes i: "dict_inv n h1 d items1"
  shows "view (h1 @ copy_objects d (length h1) v) (length h1 + 5)
      = Inr \<lparr>v_hash = v_hash v, v_spent_outputs = items_view h1 items1,
             v_conflict_with = py_set (v_conflict_with v),
             v_voided_by = py_set (v_voided_by v),
             v_received_by = py_set (v_received_by v),
             v_children = py_set (v_children v),
             v_twins = py_set (v_twins v),
             v_accumulated_weight = v_accumulated_weight v, v_score = v_score v,
             v_first_block = v_first_block v\<rparr>"
    and "reachable (h1 @ copy_objects d (length h1) v) (length h1 + 5)
      = {length h1 + 5, d, length h1 + 2, length h1 + 3, length h1, length h1 + 1,
         length h1 + 4} \<union> set (map snd items1)"
proof -
  let ?h = "h1 @ copy_objects d (length h1) v"
  define f where "f = \<lparr>hash_md = v_hash v, spent_outputs = d, conflict_with = length h1 + 2,
       voided_by = length h1 + 3, received_by = length h1, children = length h1 + 1,
       twins = length h1 + 4, accumulated_weight = v_accumulated_weight v,
       score = v_score v, first_block = v_first_block v\<rparr>"
  from i have d: "d < length h1" by (simp add: dict_inv_def)
  have m: "metadata_at ?h (length h1 + 5) = Inr f"
    by (simp add: metadata_at_def copy_objects_def nth_append f_def)
  have da: "dict_at ?h (spent_outputs f) = Inr items1"
    using d by (simp add: readers_append dict_inv_read(1) [OF i] f_def)
  have di: "dict_items ?h items1 = Inr (items_view h1 items1)"
    by (rule dict_items_append [OF dict_inv_read(2) [OF i]])
  have s: "bytes_set_at ?h (conflict_with f) = Inr (py_set (v_conflict_with v))"
    "bytes_set_at ?h (voided_by f) = Inr (py_set (v_voided_by v))"
    "int_set_at ?h (received_by f) = Inr (py_set (v_received_by v))"
    "bytes_set_at ?h (children f) = Inr (py_set (v_children v))"
    "bytes_set_at ?h (twins f) = Inr (py_set (v_twins v))"
    by (simp_all add: bytes_set_at_def int_set_at_def copy_objects_def nth_append f_def)
  from view_intro [OF m da di s]
  show "view ?h (length h1 + 5)
      = Inr \<lparr>v_hash = v_hash v, v_spent_outputs = items_view h1 items1,
             v_conflict_with = py_set (v_conflict_with v),
             v_voided_by = py_set (v_voided_by v),
             v_received_by = py_set (v_received_by v),
             v_children = py_set (v_children v),
             v_twins = py_set (v_twins v),
             v_accumulated_weight = v_accumulated_weight v, v_score = v_score v,
             v_first_block = v_first_block v\<rparr>"
    by (simp add: f_def)
  show "reachable ?h (length h1 + 5)
      = {length h1 + 5, d, length h1 + 2, length h1 + 3, length h1, length h1 + 1,
         length h1 + 4} \<union> set (map snd items1)"
    unfolding reachable_def using da by (simp add: m) (simp add: f_def)
qed

subsection \<open>clone\<close>

text \<open>
  C9, as the code has it. Let the instance at address \<open>self\<close> be well formed (its
  attributes hold a dictionary of sets and five sets, each key of the dictionary once),
  with a hash that is a non-empty byte string, a \<^verbatim>\<open>first_block\<close> that is \<^verbatim>\<open>None\<close> or a
  non-empty byte string, an accumulated weight and a score that are not NaN, and no
  empty set of spenders. Then \<open>to_json\<close> returns, \<open>create_from_json\<close> on its result
  returns a new instance, and so does \<open>clone\<close>; the instance and its copy are equal
  under \<^verbatim>\<open>__eq__\<close>, in both directions; every object that existed before the call is
  unchanged; and no mutable object is reached from both the instance and the copy.
\<close>

theorem clone_round_trip:
  assumes v: "view h self = Inr v"
    and hash: "v_hash v = Some x" "x \<noteq> []"
    and fb: "v_first_block v \<noteq> Some []"
    and weights: "v_accumulated_weight v \<noteq> NaN" "v_score v \<noteq> NaN"
    and keys: "distinct (map fst (v_spent_outputs v))"
    and sets: "\<forall>(idx, s) \<in> set (v_spent_outputs v). s \<noteq> []"
  shows "\<exists>data h1 copy. to_json h self = Inr data
      \<and> create_from_json h data = Inr (h1, copy)
      \<and> clone h self = Inr (h1, copy)
      \<and> TransactionMetadata_eq h1 self copy = Inr True
      \<and> TransactionMetadata_eq h1 copy self = Inr True
      \<and> equals_own_clone h self = Inr True
      \<and> take (length h) h1 = h
      \<and> view h1 self = Inr v
      \<and> reachable h1 self \<inter> reachable h1 copy = {}"
proof -
  from clone_result [OF v hash fb] obtain data h1 items1 where
    tj: "to_json h self = Inr data"
    and cj: "create_from_json h data
          = Inr (h1 @ copy_objects (length h) (length h1) v, length h1 + 5)"
    and i: "dict_inv (length h) h1 (length h) items1"
    and iv: "items_view h1 items1
          = fold (\<lambda>(idx, hs). fold (defaultdict_add idx) hs) (v_spent_outputs v) []"
    and t: "take (length h) h1 = h"
    by blast
  let ?h = "h1 @ copy_objects (length h) (length h1) v"
  let ?c = "length h1 + 5"
  from arg_cong [OF t, of length] have len: "length h \<le> length h1"
    by (simp add: min_def split: if_splits)
  from t have "h1 = h @ drop (length h) h1"
    by (metis append_take_drop_id)
  then have split: "?h = h @ (drop (length h) h1 @ copy_objects (length h) (length h1) v)"
    by simp
  have vs: "view ?h self = Inr v"
    unfolding split by (rule view_append [OF v])
  have rs: "reachable ?h self \<subseteq> {..<length h}"
    unfolding split using reachable_old [OF v] by simp
  note vc = view_copy(1) [OF i, of v]
  from i have "\<forall>s \<in> set (map snd items1). length h \<le> s"
    by (auto simp: dict_inv_def list_all_iff)
  with len have rc: "reachable ?h ?c \<subseteq> {length h..}"
    unfolding view_copy(2) [OF i] by auto
  have deq: "dict_eq (v_spent_outputs v) (items_view h1 items1)"
    unfolding iv by (rule spent_outputs_roundtrip [OF keys sets])
  then have deq2: "dict_eq (items_view h1 items1) (v_spent_outputs v)"
    by (simp add: dict_eq_spenders)
  have eq1: "TransactionMetadata_eq ?h self ?c = Inr True"
    using weights deq
    by (simp add: TransactionMetadata_eq_def vs vc set_eq_def set_py_set float_ne_def)
  have eq2: "TransactionMetadata_eq ?h ?c self = Inr True"
    using weights deq2
    by (simp add: TransactionMetadata_eq_def vs vc set_eq_def set_py_set float_ne_def)
  have cl: "clone h self = Inr (?h, ?c)"
    by (simp add: clone_def tj cj)
  have eoc: "equals_own_clone h self = Inr True"
    by (simp add: equals_own_clone_def cl eq1)
  have tk: "take (length h) ?h = h"
    using t len by simp
  from rs rc have disj: "reachable ?h self \<inter> reachable ?h ?c = {}"
    by fastforce
  from tj cj cl eq1 eq2 eoc tk vs disj show ?thesis
    by blast
qed

lemma sample_view_read: "view (sample_heap sample_fields) 8 = Inr sample_view"
  by code_simp

theorem clone_round_trip_witness:
  "view (sample_heap sample_fields) 8 = Inr sample_view
   \<and> (\<exists>data h1 copy. to_json (sample_heap sample_fields) 8 = Inr data
      \<and> create_from_json (sample_heap sample_fields) data = Inr (h1, copy)
      \<and> clone (sample_heap sample_fields) 8 = Inr (h1, copy)
      \<and> TransactionMetadata_eq h1 8 copy = Inr True
      \<and> TransactionMetadata_eq h1 copy 8 = Inr True
      \<and> equals_own_clone (sample_heap sample_fields) 8 = Inr True
      \<and> take (length (sample_heap sample_fields)) h1 = sample_heap sample_fields
      \<and> view h1 8 = Inr sample_view
      \<and> reachable h1 8 \<inter> reachable h1 copy = {})"
  using clone_round_trip [OF sample_view_read, of "[0x01]"]
  by (simp add: sample_view_def sample_view_read [unfolded sample_view_def])

text \<open>
  The claim as first stated asks only for a hash that is not \<^verbatim>\<open>None\<close> and for no empty
  set of spenders. On the sample instance with \<^verbatim>\<open>first_block = b''\<close> the copy has
  \<^verbatim>\<open>first_block = None\<close> and differs; with \<^verbatim>\<open>hash = b''\<close> the call raises \<^verbatim>\<open>TypeError\<close>;
  with an accumulated weight that is NaN the copy differs.
\<close>

theorem clone_round_trip_counterexample:
  "view (sample_heap (sample_fields\<lparr>first_block := Some []\<rparr>)) 8
     = Inr (sample_view\<lparr>v_first_block := Some []\<rparr>)
   \<and> equals_own_clone (sample_heap (sample_fields\<lparr>first_block := Some []\<rparr>)) 8 = Inr False
   \<and> view (sample_heap (sample_fields\<lparr>hash_md := Some []\<rparr>)) 8
     = Inr (sample_view\<lparr>v_hash := Some []\<rparr>)
   \<and> equals_own_clone (sample_heap (sample_fields\<lparr>hash_md := Some []\<rparr>)) 8 = Inl TypeError
   \<and> view (sample_heap (sample_fields\<lparr>accumulated_weight := NaN\<rparr>)) 8
     = Inr (sample_view\<lparr>v_accumulated_weight := NaN\<rparr>)
   \<and> equals_own_clone (sample_heap (sample_fields\<lparr>accumulated_weight := NaN\<rparr>)) 8
     = Inr False"
  by code_simp

end
